theory Spec2Isabelle
  imports Main
begin

section \<open>Values, documents and errors\<close>

text \<open>
  Documents of the backing store and the steps of an aggregation pipeline are JSON-like
  values. An object is an association list: the order of its keys is the order in which
  the Python dict was built. \<open>VOid\<close> is an ObjectId.
\<close>

datatype val =
    VNull
  | VBool bool
  | VInt int
  | VStr string
  | VOid nat
  | VArr "val list"
  | VObj "(string \<times> val) list"

type_synonym doc = "(string \<times> val) list"

text \<open>The exceptions raised by \<open>fiftyone/core/dataset.py\<close>, by kind.\<close>

datatype value_error =
    NumericIndexNotSupported
  | DatasetDeleted string
  | NonEmptyDataset
  | InvalidMediaType string
  | DatasetExists string
  | DatasetNotFound string
  | FieldsDoNotExist "string list" string
  | WriteErrorMessage
  | UnpackError
  | NoSuchField string
  | NotIndexed string

datatype key_error =
    NoSampleFound string string
  | MissingKey val

datatype error =
    ValueError value_error
  | KeyError key_error
  | AttributeError string
  | MediaTypeError string "string option"
  | ValidationError string
  | DoesNotExist string
  | BulkWriteError
  | OperationFailure string
  | RecursionError

section \<open>The dataset document and the dataset instance\<close>

text \<open>Field types of a schema, as far as \<open>dataset.py\<close> tells them apart.\<close>

datatype ftype =
    ListField
  | EmbeddedDocumentField string
  | OtherField string

text \<open>
  The persisted dataset document. \<open>evaluations\<close> and \<open>brain_methods\<close> map a run key
  to the run's results, a file of the blob store, when it has any.
\<close>

record dataset_doc =
  name :: string
  media_type :: "string option"
  sample_collection_name :: string
  persistent :: bool
  sample_fields :: "(string \<times> ftype) list"
  frame_fields :: "(string \<times> ftype) list"
  evaluations :: "(string \<times> nat option) list"
  brain_methods :: "(string \<times> nat option) list"

text \<open>
  A \<open>Dataset\<close> instance: \<open>doc\<close> is \<open>self._doc\<close> and \<open>deleted_flag\<close> is
  \<open>self._deleted\<close>, which is \<open>None\<close> until \<open>__init__\<close> has assigned it.
  \<open>sample_doc_cls\<close> and \<open>frame_doc_cls\<close> are the fields declared on the two document
  classes of the dataset, in the order of their declaration. \<open>members\<close> are the names
  of the attributes that the instance inherits from the bases of the class.
\<close>

record Dataset =
  doc :: dataset_doc
  deleted_flag :: "bool option"
  sample_doc_cls :: "(string \<times> ftype) list"
  frame_doc_cls :: "(string \<times> ftype) list"
  members :: "string list"

text \<open>
  The attributes that \<open>class Dataset\<close> defines itself (its methods and properties, and the
  instance attributes assigned in \<open>__init__\<close>), apart from \<open>name\<close>,
  \<open>deleted\<close>, \<open>_deleted\<close> and \<open>_doc\<close>, which are treated separately below.
\<close>

definition Dataset_attributes :: "string list" where
  "Dataset_attributes =
    [''__init__'', ''__len__'', ''__getitem__'', ''__delitem__'', ''__getattribute__'',
     ''_dataset'', ''_root_dataset'', ''_is_patches'', ''_is_frames'', ''media_type'',
     ''version'', ''persistent'', ''info'', ''classes'', ''default_classes'',
     ''mask_targets'', ''default_mask_targets'', ''summary'', ''stats'', ''first'',
     ''last'', ''head'', ''tail'', ''view'', ''get_field_schema'',
     ''get_frame_field_schema'', ''add_sample_field'', ''_add_sample_field_if_necessary'',
     ''_add_implied_sample_field'', ''_add_implied_sample_field_if_necessary'',
     ''add_frame_field'', ''_add_frame_field_if_necessary'', ''_add_implied_frame_field'',
     ''_add_implied_frame_field_if_necessary'', ''rename_sample_field'',
     ''rename_sample_fields'', ''rename_frame_field'', ''rename_frame_fields'',
     ''_rename_sample_fields'', ''_rename_frame_fields'', ''clone_sample_field'',
     ''clone_sample_fields'', ''clone_frame_field'', ''clone_frame_fields'',
     ''_clone_sample_fields'', ''_clone_frame_fields'', ''clear_sample_field'',
     ''clear_sample_fields'', ''clear_frame_field'', ''clear_frame_fields'',
     ''_clear_sample_fields'', ''_clear_frame_fields'', ''delete_sample_field'',
     ''delete_sample_fields'', ''delete_frame_field'', ''delete_frame_fields'',
     ''_delete_sample_fields'', ''_delete_frame_fields'', ''iter_samples'',
     ''_iter_samples'', ''add_sample'', ''add_samples'', ''add_collection'',
     ''_add_samples_batch'', ''_upsert_samples_batch'', ''_bulk_write'', ''_merge_doc'',
     ''merge_samples'', ''delete_samples'', ''delete_labels'', ''_delete_labels'',
     ''remove_sample'', ''remove_samples'', ''save'', ''_save'', ''clone'', ''_clone'',
     ''clear'', ''delete'', ''add_dir'', ''merge_dir'', ''add_archive'', ''merge_archive'',
     ''add_importer'', ''merge_importer'', ''add_images'', ''add_labeled_images'',
     ''add_images_dir'', ''add_images_patt'', ''ingest_images'', ''ingest_labeled_images'',
     ''add_videos'', ''add_labeled_videos'', ''add_videos_dir'', ''add_videos_patt'',
     ''ingest_videos'', ''ingest_labeled_videos'', ''from_dir'', ''from_archive'',
     ''from_importer'', ''from_images'', ''from_labeled_images'', ''from_images_dir'',
     ''from_images_patt'', ''from_videos'', ''from_labeled_videos'', ''from_videos_dir'',
     ''from_videos_patt'', ''list_indexes'', ''create_index'', ''drop_index'',
     ''from_dict'', ''from_json'', ''_add_view_stage'', ''_pipeline'', ''_aggregate'',
     ''_sample_collection_name'', ''_sample_collection'', ''_frame_collection_name'',
     ''_frame_collection'', ''_frame_indexes'', ''_apply_field_schema'',
     ''_apply_frame_field_schema'', ''_apply_schema'', ''_ensure_label_field'',
     ''_expand_schema'', ''_expand_frame_schema'', ''_validate_media_type'',
     ''_sample_dict_to_doc'', ''_frame_dict_to_doc'', ''_validate_samples'', ''reload'',
     ''_reload'', ''_reload_docs'', ''_serialize'', ''_sample_doc_cls'',
     ''_frame_doc_cls'', ''_evaluation_cache'', ''_brain_cache'']"

definition VIDEO :: string where
  "VIDEO = ''video''"

definition IMAGE :: string where
  "IMAGE = ''image''"

text \<open>Modelled from the spec: \<open>fiftyone.core.media.MEDIA_TYPES\<close>, the media types
  a dataset can have ("image, video, or unset").\<close>

definition MEDIA_TYPES :: "string list" where
  "MEDIA_TYPES = [IMAGE, VIDEO]"

section \<open>Attribute access and deletion\<close>

datatype attr =
    AStr string
  | ABool bool
  | ADoc dataset_doc
  | AMember string

text \<open>
  \<open>object.__getattribute__\<close>: the properties \<open>name\<close> and \<open>deleted\<close> read
  \<open>self._doc.name\<close> and \<open>self._deleted\<close>; any other name is found among the attributes
  of the class and its bases or raises \<open>AttributeError\<close>.
\<close>

definition startswith :: "string \<Rightarrow> string \<Rightarrow> bool" where
  "startswith s p = (take (length p) s = p)"

definition super_getattribute :: "Dataset \<Rightarrow> string \<Rightarrow> error + attr" where
  "super_getattribute self n =
     (if n = ''name'' then Inr (AStr (name (doc self)))
      else if n = ''_doc'' then Inr (ADoc (doc self))
      else if n = ''deleted'' \<or> n = ''_deleted'' then
        (case deleted_flag self of
           None \<Rightarrow> Inl (AttributeError n)
         | Some b \<Rightarrow> Inr (ABool b))
      else if n \<in> set Dataset_attributes \<or> n \<in> set (members self) then Inr (AMember n)
      else Inl (AttributeError n))"

text \<open>\<open>Dataset.__getattribute__\<close>; \<open>getattr(self, "_deleted", False)\<close> is
  \<open>False\<close> when the attribute is not there yet.\<close>

definition always_available :: "string \<Rightarrow> bool" where
  "always_available n =
     (startswith n ''__'' \<or> n \<in> set [''name'', ''deleted'', ''_deleted'', ''_doc''])"

definition getattribute :: "Dataset \<Rightarrow> string \<Rightarrow> error + attr" where
  "getattribute self n =
     (if always_available n then super_getattribute self n
      else if (case deleted_flag self of None \<Rightarrow> False | Some b \<Rightarrow> b) then
        Inl (ValueError (DatasetDeleted (name (doc self))))
      else super_getattribute self n)"


text \<open>
  The database: the collection of dataset documents, the named collections of sample
  and frame documents, the indexes of every collection besides the one on \<open>_id\<close> (the
  indexed fields and whether the index is unique), the files of the blob store that
  holds run results, and the next ObjectId that will be generated.
\<close>

record database =
  dataset_docs :: "dataset_doc list"
  collections :: "(string \<times> doc list) list"
  indexes :: "(string \<times> (string list \<times> bool) list) list"
  gridfs :: "nat list"
  next_oid :: nat

definition get_collection :: "database \<Rightarrow> string \<Rightarrow> doc list" where
  "get_collection db cname = (case map_of (collections db) cname of None \<Rightarrow> [] | Some ds \<Rightarrow> ds)"

definition drop_collection :: "string \<Rightarrow> database \<Rightarrow> database" where
  "drop_collection cname db =
     db\<lparr>collections := filter (\<lambda>c. fst c \<noteq> cname) (collections db),
        indexes := filter (\<lambda>c. fst c \<noteq> cname) (indexes db)\<rparr>"

definition frame_collection_name :: "Dataset \<Rightarrow> string" where
  "frame_collection_name self = ''frames.'' @ sample_collection_name (doc self)"

text \<open>
  \<open>Dataset.clear\<close> drops the sample and the frame collection. It reaches them through
  \<open>self._sample_doc_cls\<close>, an attribute that \<open>__getattribute__\<close> guards.
\<close>

definition clear :: "Dataset \<Rightarrow> database \<Rightarrow> error + database" where
  "clear self db =
     (case getattribute self ''_sample_doc_cls'' of
        Inl e \<Rightarrow> Inl e
      | Inr _ \<Rightarrow>
          Inr (drop_collection (frame_collection_name self)
                 (drop_collection (sample_collection_name (doc self)) db)))"

text \<open>\<open>_delete_dataset_doc\<close>: the results of every run are deleted from the blob store,
  then the dataset document itself.\<close>

definition run_results :: "dataset_doc \<Rightarrow> nat list" where
  "run_results d = List.map_filter snd (evaluations d) @ List.map_filter snd (brain_methods d)"

definition delete_dataset_doc :: "dataset_doc \<Rightarrow> database \<Rightarrow> database" where
  "delete_dataset_doc d db =
     db\<lparr>gridfs := filter (\<lambda>f. f \<notin> set (run_results d)) (gridfs db),
        dataset_docs := filter (\<lambda>d'. name d' \<noteq> name d) (dataset_docs db)\<rparr>"

text \<open>\<open>Dataset.delete\<close>; \<open>self.clear\<close> is itself a guarded attribute.\<close>

definition delete :: "Dataset \<Rightarrow> database \<Rightarrow> error + database \<times> Dataset" where
  "delete self db =
     (case getattribute self ''clear'' of
        Inl e \<Rightarrow> Inl e
      | Inr _ \<Rightarrow>
          (case clear self db of
             Inl e \<Rightarrow> Inl e
           | Inr db1 \<Rightarrow>
               Inr (delete_dataset_doc (doc self) db1, self\<lparr>deleted_flag := Some True\<rparr>)))"

section \<open>Indexing a dataset\<close>

datatype key =
    Integral int
  | Slice "int option" "int option" "int option"
  | Other string

datatype item =
    ViewSlice "int option" "int option" "int option"
  | Sample doc

text \<open>\<open>bson.ObjectId(s)\<close> accepts a string of 24 hexadecimal digits and raises on
  any other string.\<close>

definition hex_digit :: "char \<Rightarrow> nat option" where
  "hex_digit c =
     (let n = (of_char c :: nat)
      in if 48 \<le> n \<and> n \<le> 57 then Some (n - 48)
         else if 97 \<le> n \<and> n \<le> 102 then Some (n - 87)
         else if 65 \<le> n \<and> n \<le> 70 then Some (n - 55)
         else None)"

fun hex_value :: "nat \<Rightarrow> string \<Rightarrow> nat option" where
  "hex_value acc [] = Some acc"
| "hex_value acc (c # cs) =
     (case hex_digit c of None \<Rightarrow> None | Some d \<Rightarrow> hex_value (16 * acc + d) cs)"

definition ObjectId :: "string \<Rightarrow> nat option" where
  "ObjectId s = (if length s = 24 then hex_value 0 s else None)"

text \<open>\<open>find_one\<close> with an equality query: the first document that has every
  queried field with the queried value.\<close>

definition matches :: "doc \<Rightarrow> doc \<Rightarrow> bool" where
  "matches query d = list_all (\<lambda>q. map_of d (fst q) = Some (snd q)) query"

definition find_one :: "doc \<Rightarrow> doc list \<Rightarrow> doc option" where
  "find_one query coll = List.find (matches query) coll"

text \<open>
  \<open>Dataset.__getitem__\<close>. The second component is the list of queries sent to the sample
  collection. No branch writes to the database or to the instance. Decoding the document
  that was found is taken to succeed.
\<close>

definition getitem :: "Dataset \<Rightarrow> database \<Rightarrow> key \<Rightarrow> (error + item) \<times> doc list" where
  "getitem self db id_filepath_slice =
     (case id_filepath_slice of
        Integral i \<Rightarrow> (Inl (ValueError NumericIndexNotSupported), [])
      | Slice a b c \<Rightarrow>
          (case getattribute self ''view'' of
             Inl e \<Rightarrow> (Inl e, [])
           | Inr _ \<Rightarrow> (Inr (ViewSlice a b c), []))
      | Other s \<Rightarrow>
          (let oid = ObjectId s;
               query = (case oid of
                          Some i \<Rightarrow> [(''_id'', VOid i)]
                        | None \<Rightarrow> [(''filepath'', VStr s)])
           in case getattribute self ''_sample_collection'' of
                Inl e \<Rightarrow> (Inl e, [])
              | Inr _ \<Rightarrow>
                  (case find_one query (get_collection db (sample_collection_name (doc self))) of
                     None \<Rightarrow>
                       (Inl (KeyError (NoSampleFound
                               (if oid \<noteq> None then ''ID'' else ''filepath'') s)), [query])
                   | Some d \<Rightarrow> (Inr (Sample d), [query]))))"

section \<open>Compiling the pipeline of a dataset\<close>

text \<open>The join step that attaches to every sample its frames, sorted by frame number.\<close>

definition lookup_frames :: "Dataset \<Rightarrow> val" where
  "lookup_frames self =
     VObj [(''$lookup'', VObj
       [(''from'', VStr (frame_collection_name self)),
        (''let'', VObj [(''sample_id'', VStr ''$_id'')]),
        (''pipeline'', VArr
          [VObj [(''$match'', VObj [(''$expr'', VObj
             [(''$eq'', VArr [VStr ''$$sample_id'', VStr ''$_sample_id''])])])],
           VObj [(''$sort'', VObj [(''frame_number'', VInt 1)])]]),
        (''as'', VStr ''frames'')])]"

definition detach_frames_steps :: "val list" where
  "detach_frames_steps = [VObj [(''$project'', VObj [(''frames'', VBool False)])]]"

definition frames_only_steps :: "val list" where
  "frames_only_steps =
     [VObj [(''$project'', VObj [(''frames'', VBool True)])],
      VObj [(''$unwind'', VStr ''$frames'')],
      VObj [(''$replaceRoot'', VObj [(''newRoot'', VStr ''$frames'')])]]"

text \<open>\<open>Dataset._pipeline\<close>, with the reassignments of the three flags in the order of
  the source.\<close>

definition Dataset_pipeline ::
  "Dataset \<Rightarrow> val list option \<Rightarrow> bool \<Rightarrow> bool \<Rightarrow> bool \<Rightarrow> val list" where
  "Dataset_pipeline self pipeline attach_frames detach_frames frames_only =
     (let not_video = (media_type (doc self) \<noteq> Some VIDEO);
          attach_frames1 = (if not_video then False else attach_frames);
          detach_frames1 = (if not_video then False else detach_frames);
          frames_only1 = (if not_video then False else frames_only);
          detach_frames2 = (if \<not> attach_frames1 then False else detach_frames1);
          attach_frames2 = (if frames_only1 then True else attach_frames1);
          p0 = (if attach_frames2 then [lookup_frames self] else []);
          p1 = (case pipeline of None \<Rightarrow> p0 | Some p \<Rightarrow> p0 @ p)
      in if detach_frames2 then p1 @ detach_frames_steps
         else if frames_only1 then p1 @ frames_only_steps
         else p1)"

section \<open>Iterating over the samples\<close>

text \<open>
  \<open>foo.aggregate(collection, pipeline)\<close>: the documents that the pipeline yields on the
  collection. A \<open>$skip\<close> step drops that many documents; what the other steps do is given
  by \<open>step\<close>.
\<close>

definition skip_step :: "nat \<Rightarrow> val" where
  "skip_step n = VObj [(''$skip'', VInt (int n))]"

fun run_step :: "(val \<Rightarrow> doc list \<Rightarrow> doc list) \<Rightarrow> val \<Rightarrow> doc list \<Rightarrow> doc list" where
  "run_step step (VObj [(k, VInt n)]) docs =
     (if k = ''$skip'' then drop (nat n) docs else step (VObj [(k, VInt n)]) docs)"
| "run_step step st docs = step st docs"

definition aggregate :: "(val \<Rightarrow> doc list \<Rightarrow> doc list) \<Rightarrow> doc list \<Rightarrow> val list \<Rightarrow> doc list" where
  "aggregate step coll pipeline = fold (run_step step) pipeline coll"

text \<open>
  What the caller of \<open>_iter_samples\<close> and the database see, in order: a pipeline is issued,
  a sample is yielded, an exception reaches the caller.
\<close>

datatype event =
    Issued "val list"
  | Yielded item
  | Raised error

text \<open>
  \<open>Dataset._iter_samples\<close>. The argument \<open>es\<close> says where the cursors expire: its head
  \<open>e\<close> is the number of documents the cursor of this call delivers before it raises
  \<open>CursorNotFound\<close>; a cursor that has delivered all its documents ends normally, and
  with no entry left no cursor expires. \<open>index\<close> counts the samples yielded by this call;
  the handler appends \<open>{"$skip": index}\<close> to the pipeline and iterates over a nested call
  of \<open>_iter_samples\<close>, a generator inside the generator. \<open>depth\<close> is the number of
  nested calls that the recursion limit of the interpreter still admits: with none left
  the nested call raises \<open>RecursionError\<close>, which no handler catches. Decoding a
  document into a sample is taken to succeed.
\<close>

fun iter_samples ::
  "(val \<Rightarrow> doc list \<Rightarrow> doc list) \<Rightarrow> doc list \<Rightarrow> val list \<Rightarrow> nat list \<Rightarrow> nat \<Rightarrow> event list" where
  "iter_samples step coll pipeline [] depth =
     Issued pipeline # map (\<lambda>d. Yielded (Sample d)) (aggregate step coll pipeline)"
| "iter_samples step coll pipeline (e # es) depth =
     (let docs = aggregate step coll pipeline
      in if e < length docs then
           (let index = e
            in Issued pipeline # map (\<lambda>d. Yielded (Sample d)) (take index docs) @
               (case depth of
                  0 \<Rightarrow> [Raised RecursionError]
                | Suc depth1 \<Rightarrow>
                    iter_samples step coll (pipeline @ [skip_step index]) es depth1))
         else Issued pipeline # map (\<lambda>d. Yielded (Sample d)) docs)"



section \<open>Adding samples\<close>

text \<open>
  A sample that is handed to the dataset: its media type, its fields with their values
  (private fields included, in the order of \<open>_get_field_names\<close>), its frames by frame
  number, and whether it already belongs to a dataset.
\<close>

record sample =
  s_media_type :: string
  s_fields :: doc
  s_frames :: "(nat \<times> doc) list"
  s_in_db :: bool

text \<open>
  What \<open>dataset.py\<close> asks of the field classes, whose code is elsewhere: the field type
  that a value implies (or the error raised when it implies none), whether
  \<open>field.validate(value)\<close> passes, and \<open>field.null\<close>.
\<close>

record field_api =
  implied_field :: "val \<Rightarrow> error + ftype"
  validate_field :: "ftype \<Rightarrow> val \<Rightarrow> bool"
  null_field :: "ftype \<Rightarrow> bool"

text \<open>Modelled from the spec: the private-field convention of \<open>get_field_schema\<close> and
  \<open>iter_fields\<close>, which are not in \<open>dataset.py\<close> ("a private/internal field prefix
  convention marks fields excluded from default listings").\<close>

definition is_private :: "string \<Rightarrow> bool" where
  "is_private n = startswith n ''_''"

definition get_field_schema :: "Dataset \<Rightarrow> bool \<Rightarrow> (string \<times> ftype) list" where
  "get_field_schema self include_private =
     filter (\<lambda>f. include_private \<or> \<not> is_private (fst f)) (sample_doc_cls self)"

definition get_frame_field_schema :: "Dataset \<Rightarrow> bool \<Rightarrow> (string \<times> ftype) list option" where
  "get_frame_field_schema self include_private =
     (if media_type (doc self) \<noteq> Some VIDEO then None
      else Some (filter (\<lambda>f. include_private \<or> \<not> is_private (fst f)) (frame_doc_cls self)))"

definition iter_fields :: "sample \<Rightarrow> doc" where
  "iter_fields s = filter (\<lambda>f. \<not> is_private (fst f)) (s_fields s)"

text \<open>\<open>len(self)\<close>, which is also the truth value of \<open>self\<close>.\<close>

definition len :: "Dataset \<Rightarrow> database \<Rightarrow> nat" where
  "len self db = length (get_collection db (sample_collection_name (doc self)))"

text \<open>\<open>doc.save()\<close> and \<open>doc.reload()\<close> on the dataset document, found by its name.\<close>

definition save_doc :: "dataset_doc \<Rightarrow> database \<Rightarrow> database" where
  "save_doc d db =
     db\<lparr>dataset_docs :=
          (if name d \<in> set (map name (dataset_docs db))
           then map (\<lambda>d'. if name d' = name d then d else d') (dataset_docs db)
           else dataset_docs db @ [d])\<rparr>"

definition reload_doc :: "Dataset \<times> database \<Rightarrow> error + Dataset \<times> database" where
  "reload_doc st =
     (case List.find (\<lambda>d. name d = name (doc (fst st))) (dataset_docs (snd st)) of
        None \<Rightarrow> Inl (DoesNotExist (name (doc (fst st))))
      | Some d \<Rightarrow> Inr ((fst st)\<lparr>doc := d\<rparr>, snd st))"

text \<open>The setter of \<open>Dataset.media_type\<close>.\<close>

definition set_media_type :: "Dataset \<times> database \<Rightarrow> string \<Rightarrow> error + Dataset \<times> database" where
  "set_media_type st mt =
     (let self = fst st; db = snd st
      in if len self db \<noteq> 0 then Inl (ValueError NonEmptyDataset)
         else if mt \<notin> set MEDIA_TYPES then Inl (ValueError (InvalidMediaType mt))
         else
           (let d1 = (doc self)\<lparr>media_type := Some mt\<rparr>;
                d2 = (if mt = VIDEO then d1\<lparr>frame_fields := frame_doc_cls self\<rparr> else d1)
            in Inr (self\<lparr>doc := d2\<rparr>, save_doc d2 db)))"

text \<open>\<open>Dataset._validate_media_type\<close>.\<close>

definition validate_media_type :: "Dataset \<Rightarrow> sample \<Rightarrow> error + unit" where
  "validate_media_type self s =
     (if media_type (doc self) \<noteq> Some (s_media_type s)
      then Inl (MediaTypeError (s_media_type s) (media_type (doc self)))
      else Inr ())"

text \<open>Modelled from the spec: \<open>add_implied_field\<close> of the document classes, which is not
  in \<open>dataset.py\<close> ("the registry infers a type descriptor from the runtime value and
  declares it"): the implied field is declared on the class of the samples or of the
  frames, added to the dataset document, and the document is saved.\<close>

definition add_implied_field ::
  "field_api \<Rightarrow> bool \<Rightarrow> Dataset \<times> database \<Rightarrow> string \<Rightarrow> val \<Rightarrow> error + Dataset \<times> database" where
  "add_implied_field api frames st field_name v =
     (case implied_field api v of
        Inl e \<Rightarrow> Inl e
      | Inr ft \<Rightarrow>
          (let self = fst st;
               self1 = (if frames
                        then self\<lparr>frame_doc_cls := frame_doc_cls self @ [(field_name, ft)],
                                   doc := (doc self)\<lparr>frame_fields :=
                                            frame_fields (doc self) @ [(field_name, ft)]\<rparr>\<rparr>
                        else self\<lparr>sample_doc_cls := sample_doc_cls self @ [(field_name, ft)],
                                   doc := (doc self)\<lparr>sample_fields :=
                                            sample_fields (doc self) @ [(field_name, ft)]\<rparr>\<rparr>)
           in Inr (self1, save_doc (doc self1) (snd st))))"

text \<open>
  The inner loop of \<open>_expand_frame_schema\<close> and of \<open>_expand_schema\<close> over the fields of
  one frame or sample. The state carries the flag \<open>expanded\<close>. The variable \<open>fields\<close> of
  the source is read again after every declaration, so it is always the current schema.
\<close>

fun expand_fields ::
  "field_api \<Rightarrow> bool \<Rightarrow> doc \<Rightarrow> bool \<times> Dataset \<times> database \<Rightarrow> error + bool \<times> Dataset \<times> database" where
  "expand_fields api frames [] st = Inr st"
| "expand_fields api frames ((field_name, v) # rest) (expanded, self, db) =
     (if field_name = ''_id'' then expand_fields api frames rest (expanded, self, db)
      else if field_name \<in> set (map fst (if frames then frame_doc_cls self
                                           else sample_doc_cls self))
      then expand_fields api frames rest (expanded, self, db)
      else if v = VNull then expand_fields api frames rest (expanded, self, db)
      else
        (case add_implied_field api frames (self, db) field_name v of
           Inl e \<Rightarrow> Inl e
         | Inr (self1, db1) \<Rightarrow> expand_fields api frames rest (True, self1, db1)))"

text \<open>\<open>Dataset._expand_frame_schema\<close>.\<close>

fun expand_frames ::
  "field_api \<Rightarrow> (nat \<times> doc) list \<Rightarrow> bool \<times> Dataset \<times> database \<Rightarrow>
   error + bool \<times> Dataset \<times> database" where
  "expand_frames api [] st = Inr st"
| "expand_frames api (frame # rest) st =
     (case expand_fields api True (snd frame) st of
        Inl e \<Rightarrow> Inl e
      | Inr st1 \<Rightarrow> expand_frames api rest st1)"

definition expand_frame_schema ::
  "field_api \<Rightarrow> Dataset \<times> database \<Rightarrow> (nat \<times> doc) list \<Rightarrow> error + bool \<times> Dataset \<times> database" where
  "expand_frame_schema api st frames = expand_frames api frames (False, fst st, snd st)"

text \<open>\<open>Dataset._expand_schema\<close>: the loop over the samples, then the reload.\<close>

fun expand_samples ::
  "field_api \<Rightarrow> sample list \<Rightarrow> bool \<times> Dataset \<times> database \<Rightarrow> error + bool \<times> Dataset \<times> database" where
  "expand_samples api [] st = Inr st"
| "expand_samples api (s # rest) (expanded, self, db) =
     (case validate_media_type self s of
        Inl e \<Rightarrow> Inl e
      | Inr _ \<Rightarrow>
          (case (if media_type (doc self) = Some VIDEO
                 then expand_frame_schema api (self, db) (s_frames s)
                 else Inr (False, self, db)) of
             Inl e \<Rightarrow> Inl e
           | Inr (frames_expanded, self1, db1) \<Rightarrow>
               (case expand_fields api False (s_fields s)
                       (expanded \<or> frames_expanded, self1, db1) of
                  Inl e \<Rightarrow> Inl e
                | Inr st1 \<Rightarrow> expand_samples api rest st1)))"

definition expand_schema ::
  "field_api \<Rightarrow> Dataset \<times> database \<Rightarrow> sample list \<Rightarrow> error + Dataset \<times> database" where
  "expand_schema api st samples =
     (case expand_samples api samples (False, fst st, snd st) of
        Inl e \<Rightarrow> Inl e
      | Inr (expanded, self1, db1) \<Rightarrow>
          (if expanded then reload_doc (self1, db1) else Inr (self1, db1)))"

text \<open>\<open>Dataset._validate_samples\<close>: the loop over the fields of one sample collects the
  undeclared fields that have a value, and validates the declared ones.\<close>

fun validate_fields ::
  "field_api \<Rightarrow> (string \<times> ftype) list \<Rightarrow> doc \<Rightarrow> string list \<Rightarrow> error + string list" where
  "validate_fields api schema [] non_existent_fields = Inr non_existent_fields"
| "validate_fields api schema ((field_name, v) # rest) non_existent_fields =
     (case map_of schema field_name of
        None \<Rightarrow>
          validate_fields api schema rest
            (if v \<noteq> VNull then non_existent_fields @ [field_name] else non_existent_fields)
      | Some field \<Rightarrow>
          (if (v \<noteq> VNull \<or> \<not> null_field api field) \<and> \<not> validate_field api field v
           then Inl (ValidationError field_name)
           else validate_fields api schema rest non_existent_fields))"

fun validate_samples :: "field_api \<Rightarrow> Dataset \<Rightarrow> sample list \<Rightarrow> error + unit" where
  "validate_samples api self [] = Inr ()"
| "validate_samples api self (s # rest) =
     (case validate_fields api (get_field_schema self True) (iter_fields s) [] of
        Inl e \<Rightarrow> Inl e
      | Inr non_existent_fields \<Rightarrow>
          (if non_existent_fields \<noteq> []
           then Inl (ValueError (FieldsDoNotExist non_existent_fields (name (doc self))))
           else validate_samples api self rest))"

text \<open>
  The indexes of a collection, with the index on \<open>_id\<close> that every collection has. A
  unique index admits no two documents with the same values of its fields; a field that
  a document lacks counts as null.
\<close>

definition key_of :: "string list \<Rightarrow> doc \<Rightarrow> val list" where
  "key_of keys d = map (\<lambda>k. case map_of d k of None \<Rightarrow> VNull | Some v \<Rightarrow> v) keys"

definition get_indexes :: "database \<Rightarrow> string \<Rightarrow> (string list \<times> bool) list" where
  "get_indexes db cname =
     ([''_id''], True) # (case map_of (indexes db) cname of None \<Rightarrow> [] | Some ixs \<Rightarrow> ixs)"

definition unique_ok :: "(string list \<times> bool) list \<Rightarrow> doc list \<Rightarrow> bool" where
  "unique_ok ixs docs =
     list_all (\<lambda>ix. if snd ix then distinct (map (key_of (fst ix)) docs) else True) ixs"

definition set_collection :: "string \<Rightarrow> doc list \<Rightarrow> database \<Rightarrow> database" where
  "set_collection cname docs db =
     db\<lparr>collections := (cname, docs) # filter (\<lambda>c. fst c \<noteq> cname) (collections db)\<rparr>"

text \<open>
  \<open>insert_many\<close>: the documents are written in order, each with a fresh \<open>_id\<close>; the
  first one that a unique index refuses ends the write with a \<open>BulkWriteError\<close>, and the
  documents written before it stay.
\<close>

fun insert_many :: "string \<Rightarrow> doc list \<Rightarrow> database \<Rightarrow> (error + nat list) \<times> database" where
  "insert_many cname [] db = (Inr [], db)"
| "insert_many cname (d # ds) db =
     (let i = next_oid db;
          docs = get_collection db cname @ [(''_id'', VOid i) # d];
          db1 = db\<lparr>next_oid := Suc i\<rparr>
      in if unique_ok (get_indexes db cname) docs then
           (case insert_many cname ds (set_collection cname docs db1) of
              (Inl e, db2) \<Rightarrow> (Inl e, db2)
            | (Inr ids, db2) \<Rightarrow> (Inr (i # ids), db2))
         else (Inl BulkWriteError, db1))"

definition to_mongo_dict :: "sample \<Rightarrow> doc" where
  "to_mongo_dict s = filter (\<lambda>f. fst f \<noteq> ''_id'') (s_fields s)"

text \<open>\<open>sample.frames.save()\<close> for every inserted sample of a video dataset: the frames are
  written to the frame collection with the \<open>_id\<close> of their sample as \<open>_sample_id\<close>.\<close>

fun save_frames :: "Dataset \<Rightarrow> (nat \<times> sample) list \<Rightarrow> database \<Rightarrow> (error + unit) \<times> database" where
  "save_frames self [] db = (Inr (), db)"
| "save_frames self (p # rest) db =
     (case insert_many (frame_collection_name self)
             (map (\<lambda>fr. [(''frame_number'', VInt (int (fst fr))), (''_sample_id'', VOid (fst p))]
                         @ snd fr)
                  (s_frames (snd p))) db of
        (Inl e, db1) \<Rightarrow> (Inl e, db1)
      | (Inr _, db1) \<Rightarrow> save_frames self rest db1)"

text \<open>\<open>Dataset._add_samples_batch\<close>; it returns the ids of the inserted samples. A raise
  ends the call: what the call had written by then is not returned.\<close>

definition copy_sample :: "sample \<Rightarrow> sample" where
  "copy_sample s = s\<lparr>s_in_db := False\<rparr>"

definition add_samples_batch ::
  "field_api \<Rightarrow> Dataset \<times> database \<Rightarrow> sample list \<Rightarrow> bool \<Rightarrow> bool \<Rightarrow>
   error + nat list \<times> Dataset \<times> database" where
  "add_samples_batch api st samples0 expand validate =
     (let samples = map (\<lambda>s. if s_in_db s then copy_sample s else s) samples0
      in case (if media_type (doc (fst st)) = None \<and> samples \<noteq> []
               then set_media_type st (s_media_type (hd samples)) else Inr st) of
           Inl e \<Rightarrow> Inl e
         | Inr st1 \<Rightarrow>
             (case (if expand then expand_schema api st1 samples else Inr st1) of
                Inl e \<Rightarrow> Inl e
              | Inr st2 \<Rightarrow>
                  (case (if validate then validate_samples api (fst st2) samples else Inr ()) of
                     Inl e \<Rightarrow> Inl e
                   | Inr _ \<Rightarrow>
                       (let self = fst st2;
                            dicts = map to_mongo_dict samples
                        in case insert_many (sample_collection_name (doc self)) dicts
                                  (snd st2) of
                             (Inl e, db3) \<Rightarrow> Inl (ValueError WriteErrorMessage)
                           | (Inr ids, db3) \<Rightarrow>
                               (if media_type (doc self) = Some VIDEO
                                then (case save_frames self (zip ids samples) db3 of
                                        (Inl e, db4) \<Rightarrow> Inl e
                                      | (Inr _, db4) \<Rightarrow> Inr (ids, self, db4))
                                else Inr (ids, self, db3))))))"

text \<open>\<open>Dataset.add_sample\<close>, and \<open>Dataset.add_samples\<close> on the batches into which the
  batcher cuts the samples (their sizes depend on the time the writes take).\<close>

definition add_sample ::
  "field_api \<Rightarrow> Dataset \<times> database \<Rightarrow> sample \<Rightarrow> bool \<Rightarrow> bool \<Rightarrow> error + nat \<times> Dataset \<times> database" where
  "add_sample api st s expand validate =
     (case add_samples_batch api st [s] expand validate of
        Inl e \<Rightarrow> Inl e
      | Inr r \<Rightarrow> Inr (hd (fst r), snd r))"


section \<open>Actions on the database\<close>

text \<open>
  A function that reads and writes the database and may raise: it returns the error or
  its result together with the database as it is then. What was written before a raise
  stays written.
\<close>

type_synonym 'a action = "database \<Rightarrow> (error + 'a) \<times> database"

definition return :: "'a \<Rightarrow> 'a action" where
  "return x db = (Inr x, db)"

definition raise :: "error \<Rightarrow> 'a action" where
  "raise e db = (Inl e, db)"

definition and_then :: "'a action \<Rightarrow> ('a \<Rightarrow> 'b action) \<Rightarrow> 'b action" where
  "and_then m f db = (case m db of (Inl e, db1) \<Rightarrow> (Inl e, db1) | (Inr x, db1) \<Rightarrow> f x db1)"

text \<open>
  \<open>collection.create_index\<close>: a unique index cannot be built over documents that agree
  on its fields; an index on the same fields is left alone when it has the same
  uniqueness and is a conflict otherwise. \<open>collection.drop_index\<close> removes the index on
  the given fields.
\<close>

definition user_indexes :: "database \<Rightarrow> string \<Rightarrow> (string list \<times> bool) list" where
  "user_indexes db cname = (case map_of (indexes db) cname of None \<Rightarrow> [] | Some ixs \<Rightarrow> ixs)"

definition set_indexes :: "string \<Rightarrow> (string list \<times> bool) list \<Rightarrow> database \<Rightarrow> database" where
  "set_indexes cname ixs db =
     db\<lparr>indexes := (cname, ixs) # filter (\<lambda>c. fst c \<noteq> cname) (indexes db)\<rparr>"

definition coll_create_index :: "string \<Rightarrow> string list \<times> bool \<Rightarrow> unit action" where
  "coll_create_index cname ix db =
     (case map_of (user_indexes db cname) (fst ix) of
        Some u \<Rightarrow>
          (if u = snd ix then (Inr (), db)
           else (Inl (OperationFailure ''index options conflict''), db))
      | None \<Rightarrow>
          (if snd ix \<and> \<not> distinct (map (key_of (fst ix)) (get_collection db cname))
           then (Inl (OperationFailure ''duplicate key''), db)
           else (Inr (), set_indexes cname (user_indexes db cname @ [ix]) db)))"

definition coll_drop_index :: "string \<Rightarrow> string list \<Rightarrow> unit action" where
  "coll_drop_index cname keys db =
     (if keys \<in> set (map fst (user_indexes db cname))
      then (Inr (), set_indexes cname (filter (\<lambda>ix. fst ix \<noteq> keys) (user_indexes db cname)) db)
      else (Inl (OperationFailure ''index not found''), db))"

text \<open>A final \<open>$out\<close> step: the documents replace the content of the collection, whose
  indexes stay.\<close>

definition out_collection :: "string \<Rightarrow> doc list \<Rightarrow> unit action" where
  "out_collection cname docs db =
     (if unique_ok (get_indexes db cname) docs then (Inr (), set_collection cname docs db)
      else (Inl (OperationFailure ''duplicate key''), db))"

section \<open>Creating, loading and cloning datasets\<close>

definition dataset_exists :: "string \<Rightarrow> database \<Rightarrow> bool" where
  "dataset_exists n db = (n \<in> set (map name (dataset_docs db)))"

text \<open>\<open>_make_sample_collection_name\<close>; \<open>now\<close> is the current time, printed to the
  second and to the microsecond.\<close>

definition make_sample_collection_name ::
  "string \<times> string \<Rightarrow> bool \<Rightarrow> bool \<Rightarrow> database \<Rightarrow> string" where
  "make_sample_collection_name now patches frames db =
     (let prefix = (if patches then ''patches'' else if frames then ''frames'' else ''samples'');
          n = prefix @ ''.'' @ fst now
      in if n \<in> set (map fst (collections db)) \<union> set (map fst (indexes db))
         then prefix @ ''.'' @ snd now else n)"

text \<open>\<open>_create_indexes\<close>.\<close>

definition create_indexes :: "string \<Rightarrow> string \<Rightarrow> unit action" where
  "create_indexes sample_cname frame_cname =
     and_then (coll_create_index sample_cname ([''filepath''], False))
       (\<lambda>_. coll_create_index frame_cname ([''_sample_id'', ''frame_number''], True))"

text \<open>
  \<open>load_dataset\<close>, that is \<open>_load_dataset\<close>: the fields of the dataset document that are
  not default fields are declared on the fresh document classes. The default fields of
  the two classes are defined outside \<open>dataset.py\<close> and given here.
\<close>

record default_fields =
  default_sample_fields :: "(string \<times> ftype) list"
  default_frame_fields :: "(string \<times> ftype) list"

definition load_dataset :: "default_fields \<Rightarrow> string list \<Rightarrow> string \<Rightarrow> Dataset action" where
  "load_dataset dflt mbrs n db =
     (case List.find (\<lambda>d. name d = n) (dataset_docs db) of
        None \<Rightarrow> (Inl (ValueError (DatasetNotFound n)), db)
      | Some d \<Rightarrow>
          (Inr \<lparr>doc = d, deleted_flag = Some False,
                sample_doc_cls = default_sample_fields dflt @
                  filter (\<lambda>f. fst f \<notin> set (map fst (default_sample_fields dflt)))
                    (sample_fields d),
                frame_doc_cls = default_frame_fields dflt @
                  (if media_type d = Some VIDEO
                   then filter (\<lambda>f. fst f \<notin> set (map fst (default_frame_fields dflt)))
                          (frame_fields d)
                   else []),
                members = mbrs\<rparr>, db))"

text \<open>
  A view, as far as \<open>_clone_dataset_or_view\<close> reads it: the names of its field schemas
  and its two pipelines, the one with \<open>detach_frames=True\<close> and the one with
  \<open>frames_only=True\<close>.
\<close>

record view =
  view_field_schema :: "string list"
  view_frame_field_schema :: "string list"
  view_pipeline :: "val list"
  view_frames_pipeline :: "val list"

text \<open>
  \<open>_clone_runs\<close>: the runs of the source document are copied to the document of the
  destination, and every run that has results gets a copy of them as a new file of the
  blob store.
\<close>

fun copy_runs :: "(string \<times> nat option) list \<Rightarrow> database \<Rightarrow> (string \<times> nat option) list \<times> database" where
  "copy_runs [] db = ([], db)"
| "copy_runs ((k, None) # rest) db =
     (case copy_runs rest db of (rs, db1) \<Rightarrow> ((k, None) # rs, db1))"
| "copy_runs ((k, Some f) # rest) db =
     (let g = next_oid db
      in case copy_runs rest (db\<lparr>gridfs := gridfs db @ [g], next_oid := Suc g\<rparr>) of
           (rs, db1) \<Rightarrow> ((k, Some g) # rs, db1))"

definition clone_runs :: "Dataset \<Rightarrow> dataset_doc \<Rightarrow> Dataset action" where
  "clone_runs dst_dataset src_doc db =
     (case copy_runs (evaluations src_doc) db of
        (evals, db1) \<Rightarrow>
          (case copy_runs (brain_methods src_doc) db1 of
             (brains, db2) \<Rightarrow>
               (let dst_doc = (doc dst_dataset)\<lparr>evaluations := evals, brain_methods := brains\<rparr>
                in (Inr (dst_dataset\<lparr>doc := dst_doc\<rparr>), save_doc dst_doc db2))))"

text \<open>
  The four parts of \<open>_clone_dataset_or_view\<close>, for the dataset itself (\<open>v = None\<close>) or
  a view of it: the document of the clone, the copy of the samples, the copy of the
  frames, and the copy of the run results.
\<close>

definition clone_dataset_doc :: "Dataset \<Rightarrow> view option \<Rightarrow> string \<Rightarrow> string \<Rightarrow> dataset_doc" where
  "clone_dataset_doc dataset v n sample_cname =
     (let d1 = (doc dataset)\<lparr>name := n, persistent := False,
                  sample_collection_name := sample_cname,
                  evaluations := [], brain_methods := []\<rparr>
      in case v of
           None \<Rightarrow> d1
         | Some vw \<Rightarrow>
             (let d2 = d1\<lparr>sample_fields :=
                    filter (\<lambda>f. fst f \<in> set (view_field_schema vw)) (sample_fields d1)\<rparr>
              in if media_type (doc dataset) = Some VIDEO
                 then d2\<lparr>frame_fields :=
                        filter (\<lambda>f. fst f \<in> set (view_frame_field_schema vw)) (frame_fields d2)\<rparr>
                 else d2))"

definition clone_samples ::
  "(val \<Rightarrow> doc list \<Rightarrow> doc list) \<Rightarrow> Dataset \<Rightarrow> view option \<Rightarrow> string \<Rightarrow> unit action" where
  "clone_samples step dataset v sample_cname db =
     out_collection sample_cname
       (aggregate step (get_collection db (sample_collection_name (doc dataset)))
          (case v of
             None \<Rightarrow> Dataset_pipeline dataset None False True False
           | Some vw \<Rightarrow> view_pipeline vw)) db"

definition clone_frames ::
  "(val \<Rightarrow> doc list \<Rightarrow> doc list) \<Rightarrow> Dataset \<Rightarrow> view option \<Rightarrow> string \<Rightarrow> unit action" where
  "clone_frames step dataset v frame_cname db =
     (if media_type (doc dataset) = Some VIDEO then
        (case v of
           Some vw \<Rightarrow>
             out_collection frame_cname
               (aggregate step (get_collection db (sample_collection_name (doc dataset)))
                  (view_frames_pipeline vw)) db
         | None \<Rightarrow>
             out_collection frame_cname
               (aggregate step (get_collection db (frame_collection_name dataset)) []) db)
      else return () db)"

definition clone_run_results :: "Dataset \<Rightarrow> Dataset \<Rightarrow> Dataset action" where
  "clone_run_results dataset clone_dataset =
     (if evaluations (doc dataset) \<noteq> [] \<or> brain_methods (doc dataset) \<noteq> []
      then clone_runs clone_dataset (doc dataset)
      else return clone_dataset)"

text \<open>\<open>_clone_dataset_or_view\<close>. It returns the clone and the source, whose document has
  been reloaded.\<close>

definition clone_dataset_or_view ::
  "(val \<Rightarrow> doc list \<Rightarrow> doc list) \<Rightarrow> default_fields \<Rightarrow> string \<times> string \<Rightarrow>
   Dataset \<Rightarrow> view option \<Rightarrow> string \<Rightarrow> (Dataset \<times> Dataset) action" where
  "clone_dataset_or_view step dflt now dataset0 v n db0 =
     (if dataset_exists n db0 then (Inl (ValueError (DatasetExists n)), db0)
      else
        (case reload_doc (dataset0, db0) of
           Inl e \<Rightarrow> (Inl e, db0)
         | Inr (dataset, db) \<Rightarrow>
            (let sample_cname = make_sample_collection_name now False False db;
                 frame_cname = ''frames.'' @ sample_cname
             in and_then (create_indexes sample_cname frame_cname) (\<lambda>_.
                and_then (clone_samples step dataset v sample_cname) (\<lambda>_.
                and_then (clone_frames step dataset v frame_cname) (\<lambda>_.
                and_then (load_dataset dflt (members dataset) n) (\<lambda>clone_dataset.
                and_then (clone_run_results dataset clone_dataset) (\<lambda>clone_dataset1.
                return (clone_dataset1, dataset))))))
               (save_doc (clone_dataset_doc dataset v n sample_cname) db))))"

text \<open>\<open>Dataset.clone\<close>, that is \<open>_clone\<close> with no view; without a name the clone is named
  after the current time, which \<open>default_name\<close> stands for.\<close>

definition clone ::
  "(val \<Rightarrow> doc list \<Rightarrow> doc list) \<Rightarrow> default_fields \<Rightarrow> string \<times> string \<Rightarrow> string \<Rightarrow>
   Dataset \<Rightarrow> string option \<Rightarrow> (Dataset \<times> Dataset) action" where
  "clone step dflt now default_name self n =
     (\<lambda>db. case getattribute self ''_clone'' of
             Inl e \<Rightarrow> (Inl e, db)
           | Inr _ \<Rightarrow>
               clone_dataset_or_view step dflt now self None
                 (case n of None \<Rightarrow> default_name | Some n1 \<Rightarrow> n1) db)"

section \<open>The merge expression\<close>

text \<open>
  \<open>_merge_docs\<close> builds an aggregation expression that the database evaluates for an
  existing document \<open>$$ROOT\<close> and an incoming document \<open>$$new\<close>. The expression is
  modelled by the function that it denotes; every operator of the expression is a
  function below. A value that may be missing is a \<open>val option\<close>; an operator applied to
  a value of the wrong type fails the whole pipeline, which is an \<open>OperationFailure\<close>.
\<close>

definition attempt :: "error + 'a \<Rightarrow> ('a \<Rightarrow> error + 'b) \<Rightarrow> error + 'b" where
  "attempt m f = (case m of Inl e \<Rightarrow> Inl e | Inr x \<Rightarrow> f x)"

definition or_null :: "val option \<Rightarrow> val" where
  "or_null v = (case v of None \<Rightarrow> VNull | Some x \<Rightarrow> x)"

text \<open>A field path such as \<open>$a.b\<close> or \<open>$$new.a.b\<close>, on objects.\<close>

definition field_of :: "string \<Rightarrow> val option \<Rightarrow> val option" where
  "field_of f v = (case v of Some (VObj kvs) \<Rightarrow> map_of kvs f | _ \<Rightarrow> None)"

fun split_on :: "char \<Rightarrow> string \<Rightarrow> string list" where
  "split_on c [] = [[]]"
| "split_on c (x # xs) =
     (if x = c then [] # split_on c xs
      else (case split_on c xs of
              [] \<Rightarrow> [[x]]
            | w # ws \<Rightarrow> (x # w) # ws))"

definition path :: "string \<Rightarrow> doc \<Rightarrow> val option" where
  "path p d = foldl (\<lambda>v f. field_of f v) (Some (VObj d)) (split_on (CHR ''.'') p)"

text \<open>\<open>{"$not": {"$gt": [x, None]}}\<close>: every value but null and the missing value is
  greater than null.\<close>

definition not_gt_null :: "val option \<Rightarrow> bool" where
  "not_gt_null v = (v = None \<or> v = Some VNull)"

definition reverseArray :: "val \<Rightarrow> error + val" where
  "reverseArray v =
     (case v of
        VNull \<Rightarrow> Inr VNull
      | VArr xs \<Rightarrow> Inr (VArr (rev xs))
      | _ \<Rightarrow> Inl (OperationFailure ''$reverseArray''))"

definition concatArrays :: "val \<Rightarrow> val \<Rightarrow> error + val" where
  "concatArrays a b =
     (if a = VNull \<or> b = VNull then Inr VNull
      else (case (a, b) of
              (VArr xs, VArr ys) \<Rightarrow> Inr (VArr (xs @ ys))
            | _ \<Rightarrow> Inl (OperationFailure ''$concatArrays'')))"

definition in_array :: "val \<Rightarrow> val \<Rightarrow> error + bool" where
  "in_array x a =
     (case a of
        VArr xs \<Rightarrow> Inr (x \<in> set xs)
      | _ \<Rightarrow> Inl (OperationFailure ''$in''))"

text \<open>\<open>{"$map": {"input": ..., "as": "this", "in": "$$this._id"}}\<close>.\<close>

definition id_of :: "val \<Rightarrow> val" where
  "id_of x = or_null (field_of ''_id'' (Some x))"

definition map_ids :: "val \<Rightarrow> error + val" where
  "map_ids v =
     (case v of
        VNull \<Rightarrow> Inr VNull
      | VArr xs \<Rightarrow> Inr (VArr (map id_of xs))
      | _ \<Rightarrow> Inl (OperationFailure ''$map''))"

text \<open>\<open>$reduce\<close>: \<open>f value this\<close> is the expression \<open>in\<close>.\<close>

fun reduce_list :: "(val \<Rightarrow> val \<Rightarrow> error + val) \<Rightarrow> val list \<Rightarrow> val \<Rightarrow> error + val" where
  "reduce_list f [] v = Inr v"
| "reduce_list f (x # xs) v = attempt (f v x) (reduce_list f xs)"

definition reduce :: "val \<Rightarrow> val \<Rightarrow> (val \<Rightarrow> val \<Rightarrow> error + val) \<Rightarrow> error + val" where
  "reduce input initialValue f =
     (case input of
        VNull \<Rightarrow> Inr VNull
      | VArr xs \<Rightarrow> reduce_list f xs initialValue
      | _ \<Rightarrow> Inl (OperationFailure ''$reduce''))"

text \<open>\<open>$filter\<close> with the condition \<open>{"$not": {"$in": ["$$this", a]}}\<close>.\<close>

definition filter_not_in :: "val \<Rightarrow> val \<Rightarrow> error + val" where
  "filter_not_in input a =
     (case input of
        VNull \<Rightarrow> Inr VNull
      | VArr xs \<Rightarrow>
          (if xs = [] then Inr (VArr [])
           else (case a of
                   VArr ys \<Rightarrow> Inr (VArr (filter (\<lambda>x. x \<notin> set ys) xs))
                 | _ \<Rightarrow> Inl (OperationFailure ''$in'')))
      | _ \<Rightarrow> Inl (OperationFailure ''$filter''))"

text \<open>\<open>$mergeObjects\<close>: null and missing operands are skipped; a later operand
  overrides the fields it shares with the earlier ones and appends the others.\<close>

definition merge_obj :: "doc \<Rightarrow> doc \<Rightarrow> doc" where
  "merge_obj a b =
     map (\<lambda>kv. (fst kv, case map_of b (fst kv) of None \<Rightarrow> snd kv | Some v \<Rightarrow> v)) a @
     filter (\<lambda>kv. fst kv \<notin> set (map fst a)) b"

fun mergeObjects :: "val option list \<Rightarrow> doc \<Rightarrow> error + doc" where
  "mergeObjects [] acc = Inr acc"
| "mergeObjects (v # vs) acc =
     (case or_null v of
        VNull \<Rightarrow> mergeObjects vs acc
      | VObj kvs \<Rightarrow> mergeObjects vs (merge_obj acc kvs)
      | _ \<Rightarrow> Inl (OperationFailure ''$mergeObjects''))"

text \<open>
  An expression of the pipeline: from \<open>$$ROOT\<close> and \<open>$$new\<close> to a value, to the missing
  value, or to a failure. The Python dict \<open>doc\<close> maps field names to such expressions.
\<close>

type_synonym expr = "doc \<Rightarrow> doc \<Rightarrow> error + val option"

definition dict_set :: "string \<Rightarrow> 'a \<Rightarrow> (string \<times> 'a) list \<Rightarrow> (string \<times> 'a) list" where
  "dict_set k v d =
     (if k \<in> set (map fst d) then map (\<lambda>kv. if fst kv = k then (k, v) else kv) d
      else d @ [(k, v)])"

text \<open>\<open>_merge_list_field\<close>.\<close>

definition list_field_expr :: "string \<Rightarrow> expr" where
  "list_field_expr list_field root new =
     (if not_gt_null (path list_field root) then Inr (path list_field new)
      else if not_gt_null (path list_field new) then Inr (path list_field root)
      else
        attempt (filter_not_in (or_null (path list_field new)) (or_null (path list_field root)))
          (\<lambda>added. attempt (concatArrays (or_null (path list_field root)) added)
            (\<lambda>v. Inr (Some v))))"

definition merge_list_field :: "(string \<times> expr) list \<Rightarrow> string \<Rightarrow> (string \<times> expr) list" where
  "merge_list_field d list_field = dict_set list_field (list_field_expr list_field) d"

text \<open>
  \<open>_merge_label_list_field\<close>: first the expression \<open>elements\<close> of the two branches on
  \<open>overwrite\<close>, for the existing elements \<open>$field.leaf\<close> and the incoming elements
  \<open>$$new.field.leaf\<close>; then the \<open>$switch\<close>.
\<close>

definition elements_overwrite :: "val \<Rightarrow> val \<Rightarrow> error + val" where
  "elements_overwrite existing incoming =
     attempt (map_ids incoming) (\<lambda>new_ids.
     attempt (reverseArray existing) (\<lambda>input.
     attempt (reverseArray incoming) (\<lambda>initialValue.
     attempt (reduce input initialValue
            (\<lambda>v this.
               attempt (in_array (id_of this) new_ids) (\<lambda>found.
                 if \<not> found then concatArrays v (VArr [this]) else Inr v)))
       reverseArray)))"

definition elements_keep :: "val \<Rightarrow> val \<Rightarrow> error + val" where
  "elements_keep existing incoming =
     attempt (map_ids existing) (\<lambda>existing_ids.
     reduce incoming existing
       (\<lambda>v this.
          attempt (in_array (id_of this) existing_ids) (\<lambda>found.
            if \<not> found then concatArrays v (VArr [this]) else Inr v)))"

definition label_list_field_expr :: "string \<Rightarrow> string \<Rightarrow> bool \<Rightarrow> expr" where
  "label_list_field_expr field leaf overwrite root new =
     (if not_gt_null (path field root) then Inr (path field new)
      else if not_gt_null (path field new) then Inr (path field root)
      else
        attempt ((if overwrite then elements_overwrite else elements_keep)
               (or_null (path (field @ ''.'' @ leaf) root))
               (or_null (path (field @ ''.'' @ leaf) new)))
          (\<lambda>elements.
             attempt (mergeObjects
                    [if overwrite then path field new else path field root,
                     Some (VObj [(leaf, elements)])] [])
               (\<lambda>merged. Inr (Some (VObj merged)))))"

definition merge_label_list_field ::
  "(string \<times> expr) list \<Rightarrow> string \<Rightarrow> bool \<Rightarrow> error + (string \<times> expr) list" where
  "merge_label_list_field d elem_field overwrite =
     (case split_on (CHR ''.'') elem_field of
        [field, leaf] \<Rightarrow> Inr (dict_set field (label_list_field_expr field leaf overwrite) d)
      | _ \<Rightarrow> Inl (ValueError UnpackError))"

text \<open>
  \<open>_merge_docs\<close>. The schema of the collection is given; \<open>label_list_field\<close> tells for
  the document type of an embedded field whether it is one of \<open>_LABEL_LIST_FIELDS\<close> and
  then the name of its list of labels (\<open>_LABEL_LIST_FIELD\<close>), both defined outside
  \<open>dataset.py\<close>. The first loop collects \<open>list_fields\<close> and \<open>elem_fields\<close>. The
  argument \<open>fields\<close> of the source is \<open>only_fields\<close> here.
\<close>

fun collect_fields ::
  "(string \<Rightarrow> string option) \<Rightarrow> (string \<times> ftype) list \<Rightarrow> (string \<times> string) list option \<Rightarrow>
   string list option \<Rightarrow> string list \<times> string list" where
  "collect_fields label_list_field [] only_fields omit_fields = ([], [])"
| "collect_fields label_list_field ((field, field_type) # rest) only_fields omit_fields =
     (let r = collect_fields label_list_field rest only_fields omit_fields;
          root = (case only_fields of
                    None \<Rightarrow> field
                  | Some fs \<Rightarrow> (case map_of fs field of None \<Rightarrow> field | Some t \<Rightarrow> t))
      in if (case only_fields of None \<Rightarrow> False | Some fs \<Rightarrow> field \<notin> set (map fst fs)) then r
         else if (case omit_fields of None \<Rightarrow> False | Some os \<Rightarrow> field \<in> set os) then r
         else (case field_type of
                 ListField \<Rightarrow> (root # fst r, snd r)
               | EmbeddedDocumentField t \<Rightarrow>
                   (case label_list_field t of
                      None \<Rightarrow> r
                    | Some leaf \<Rightarrow> (fst r, (root @ ''.'' @ leaf) # snd r))
               | OtherField t \<Rightarrow> r))"

fun merge_label_list_fields ::
  "(string \<times> expr) list \<Rightarrow> string list \<Rightarrow> bool \<Rightarrow> error + (string \<times> expr) list" where
  "merge_label_list_fields d [] overwrite = Inr d"
| "merge_label_list_fields d (elem_field # rest) overwrite =
     attempt (merge_label_list_field d elem_field overwrite)
       (\<lambda>d1. merge_label_list_fields d1 rest overwrite)"

text \<open>The object that the dict \<open>doc\<close> denotes: a field whose expression gives the
  missing value is left out.\<close>

fun eval_dict :: "(string \<times> expr) list \<Rightarrow> doc \<Rightarrow> doc \<Rightarrow> error + doc" where
  "eval_dict [] root new = Inr []"
| "eval_dict (kv # rest) root new =
     attempt (snd kv root new) (\<lambda>v.
       attempt (eval_dict rest root new) (\<lambda>r.
         Inr (case v of None \<Rightarrow> r | Some x \<Rightarrow> (fst kv, x) # r)))"

definition merge_docs ::
  "(string \<Rightarrow> string option) \<Rightarrow> (string \<times> ftype) list \<Rightarrow> bool \<Rightarrow>
   (string \<times> string) list option \<Rightarrow> string list option \<Rightarrow> string list \<Rightarrow> bool \<Rightarrow>
   error + (doc \<Rightarrow> doc \<Rightarrow> error + doc)" where
  "merge_docs label_list_field schema merge_lists only_fields omit_fields delete_fields overwrite =
     (let lists = (if merge_lists
                   then collect_fields label_list_field schema only_fields omit_fields
                   else ([], []));
          list_fields = fst lists;
          elem_fields = snd lists;
          docs = (\<lambda>root new.
            if overwrite then
              [Some (VObj root),
               Some (VObj (filter (\<lambda>item. snd item \<noteq> VNull \<and> fst item \<notin> set delete_fields)
                             new))]
            else
              [Some (VObj (if delete_fields \<noteq> []
                           then filter (\<lambda>item. fst item \<notin> set delete_fields) new
                           else new)),
               Some (VObj (filter (\<lambda>item. snd item \<noteq> VNull) root))])
      in if list_fields \<noteq> [] \<or> elem_fields \<noteq> [] then
           attempt (merge_label_list_fields (foldl merge_list_field [] list_fields)
                  elem_fields overwrite)
             (\<lambda>d. Inr (\<lambda>root new.
                attempt (eval_dict d root new) (\<lambda>obj.
                  mergeObjects (docs root new @ [Some (VObj obj)]) [])))
         else Inr (\<lambda>root new. mergeObjects (docs root new) []))"

section \<open>The merge of two datasets by pipelines\<close>

text \<open>
  What \<open>_merge_samples_pipeline\<close> reads from code outside \<open>dataset.py\<close>: the map from
  field names to the names of their fields in the database, for samples and for frames
  (\<open>_get_db_fields_map\<close>), the names of the default sample fields
  (\<open>_get_default_sample_fields\<close>), and the label-list types.
\<close>

record merge_env =
  db_fields_map :: "(string \<times> string) list"
  frame_db_fields_map :: "(string \<times> string) list"
  default_sample_field_names :: "string list"
  label_list_field :: "string \<Rightarrow> string option"

definition dict_get :: "(string \<times> string) list \<Rightarrow> string \<Rightarrow> string" where
  "dict_get m k = (case map_of m k of None \<Rightarrow> k | Some v \<Rightarrow> v)"

text \<open>
  \<open>_ensure_index\<close>. \<open>index_map\<close> maps the first field of every index of the sample
  collection to the index; of two indexes with the same first field the later one counts.
  It returns \<open>(new, dropped)\<close>.
\<close>

definition ensure_index :: "Dataset \<Rightarrow> string \<Rightarrow> bool \<Rightarrow> (bool \<times> bool) action" where
  "ensure_index dataset field unique db =
     (let coll = sample_collection_name (doc dataset);
          index_map = map (\<lambda>ix. (hd (fst ix), ix)) (get_indexes db coll)
      in case map_of (rev index_map) field of
           Some ix \<Rightarrow>
             (if snd ix \<or> (snd ix = unique) then (Inr (False, False), db)
              else and_then (coll_drop_index coll (fst ix)) (\<lambda>_.
                   and_then (coll_create_index coll ([field], True)) (\<lambda>_.
                   return (True, True))) db)
         | None \<Rightarrow>
             and_then (coll_create_index coll ([field], True)) (\<lambda>_. return (True, False)) db)"

text \<open>\<open>Dataset.drop_index\<close> and \<open>Dataset.create_index\<close> (without \<open>sphere2d\<close>), which
  restore the indexes after the merge of the samples.\<close>

definition drop_index :: "Dataset \<Rightarrow> string \<Rightarrow> unit action" where
  "drop_index self field_name db =
     (let coll = sample_collection_name (doc self);
          index_map = map (\<lambda>ix. (hd (fst ix), ix)) (get_indexes db coll)
      in case map_of (rev index_map) field_name of
           None \<Rightarrow>
             (if CHR ''.'' \<notin> set field_name \<and>
                 field_name \<notin> set (map fst (get_field_schema self False))
              then (Inl (ValueError (NoSuchField field_name)), db)
              else (Inl (ValueError (NotIndexed field_name)), db))
         | Some ix \<Rightarrow> coll_drop_index coll (fst ix) db)"

definition create_index :: "Dataset \<Rightarrow> string \<Rightarrow> bool \<Rightarrow> unit action" where
  "create_index self field_name unique db =
     (let coll = sample_collection_name (doc self);
          root = hd (split_on (CHR ''.'') field_name);
          index_map = map (\<lambda>ix. (hd (fst ix), snd ix)) (get_indexes db coll)
      in if root \<notin> set (map fst (get_field_schema self True))
         then (Inl (ValueError (NoSuchField root)), db)
         else
           (case map_of (rev index_map) field_name of
              Some u \<Rightarrow>
                (if u \<or> (unique = u) then (Inr (), db)
                 else and_then (drop_index self field_name) (\<lambda>_.
                      coll_create_index coll ([field_name], unique)) db)
            | None \<Rightarrow> coll_create_index coll ([field_name], unique) db))"

text \<open>
  \<open>_index_frames\<close>: every frame of a sample of the collection gets the value of the key
  field of its sample (null when the sample has none) as \<open>frame_key_field\<close>. The frames
  of a sample are the frame documents whose \<open>_sample_id\<close> is the \<open>_id\<close> of the sample.
\<close>

definition index_frames :: "Dataset \<Rightarrow> string \<Rightarrow> string \<Rightarrow> unit action" where
  "index_frames sample_collection key_field frame_key_field db =
     (let samples = get_collection db (sample_collection_name (doc sample_collection));
          keys_map = map (\<lambda>s. (or_null (map_of s ''_id''), or_null (map_of s key_field)))
                       samples;
          frames = get_collection db (frame_collection_name sample_collection)
      in (Inr (),
          set_collection (frame_collection_name sample_collection)
            (map (\<lambda>f. case map_of f ''_sample_id'' of
                         None \<Rightarrow> f
                       | Some i \<Rightarrow>
                           (case map_of keys_map i of
                              None \<Rightarrow> f
                            | Some k \<Rightarrow> dict_set frame_key_field k f))
                 frames) db))"

text \<open>
  The stages of the two pipelines. \<open>$unset\<close> removes fields. The \<open>frames_only\<close>
  pipeline of a video dataset yields, sample by sample, the frames of the sample sorted
  by their frame number, which is taken to be an integer; on a dataset that is not a
  video dataset \<open>_pipeline\<close> adds no step and the samples themselves are yielded.
\<close>

definition unset_fields :: "string list \<Rightarrow> doc \<Rightarrow> doc" where
  "unset_fields fs d = filter (\<lambda>kv. fst kv \<notin> set fs) d"

definition frame_number_of :: "doc \<Rightarrow> int" where
  "frame_number_of f = (case map_of f ''frame_number'' of Some (VInt n) \<Rightarrow> n | _ \<Rightarrow> 0)"

definition frames_only_docs :: "doc list \<Rightarrow> doc list \<Rightarrow> doc list" where
  "frames_only_docs samples frames =
     concat (map (\<lambda>s. sort_key frame_number_of
                         (filter (\<lambda>f. map_of f ''_sample_id'' = map_of s ''_id''
                                       \<and> map_of s ''_id'' \<noteq> None) frames))
                 samples)"

text \<open>
  The stage \<open>$merge\<close>. It needs a unique index on the fields \<open>on\<close>. The incoming
  documents are taken one after the other. A document without \<open>_id\<close> gets a fresh one
  when \<open>on\<close> is \<open>_id\<close>; otherwise every field of \<open>on\<close> must be there and be neither null
  nor an array. The document matches the existing document that has the same values of
  the fields \<open>on\<close>. A matched document is kept or replaced by the value of the
  \<open>whenMatched\<close> pipeline, which cannot change its \<open>_id\<close>; an unmatched one is inserted
  or discarded. A write that a unique index refuses fails the pipeline; the writes made
  before it stay. The incoming documents are computed before the first write.
\<close>

datatype when_matched =
    KeepExisting
  | WhenMatchedPipeline "doc \<Rightarrow> doc \<Rightarrow> error + doc"

datatype when_not_matched =
    Insert
  | Discard

definition on_field_ok :: "doc \<Rightarrow> string \<Rightarrow> bool" where
  "on_field_ok d k =
     (case map_of d k of
        None \<Rightarrow> False
      | Some VNull \<Rightarrow> False
      | Some (VArr xs) \<Rightarrow> False
      | Some v \<Rightarrow> True)"

definition insert_one :: "string \<Rightarrow> doc \<Rightarrow> unit action" where
  "insert_one cname d0 db =
     (let d = (if map_of d0 ''_id'' = None then (''_id'', VOid (next_oid db)) # d0 else d0);
          db1 = (if map_of d0 ''_id'' = None then db\<lparr>next_oid := Suc (next_oid db)\<rparr> else db);
          docs = get_collection db cname @ [d]
      in if unique_ok (get_indexes db cname) docs then (Inr (), set_collection cname docs db1)
         else (Inl (OperationFailure ''duplicate key''), db1))"

definition replace_one :: "string \<Rightarrow> doc \<Rightarrow> doc \<Rightarrow> unit action" where
  "replace_one cname e e1 db =
     (let docs = map (\<lambda>x. if x = e then e1 else x) (get_collection db cname)
      in if map_of e1 ''_id'' \<noteq> map_of e ''_id''
         then (Inl (OperationFailure ''the _id field cannot be changed''), db)
         else if unique_ok (get_indexes db cname) docs
         then (Inr (), set_collection cname docs db)
         else (Inl (OperationFailure ''duplicate key''), db))"

definition merge_one ::
  "string \<Rightarrow> string list \<Rightarrow> when_matched \<Rightarrow> when_not_matched \<Rightarrow> doc \<Rightarrow> unit action" where
  "merge_one into on wm wnm d0 db =
     (let generate = (on = [''_id''] \<and> map_of d0 ''_id'' = None);
          d = (if generate then (''_id'', VOid (next_oid db)) # d0 else d0);
          db1 = (if generate then db\<lparr>next_oid := Suc (next_oid db)\<rparr> else db)
      in if \<not> list_all (on_field_ok d) on
         then (Inl (OperationFailure ''$merge: on field missing, null or array''), db1)
         else
           (case List.find (\<lambda>e. key_of on e = key_of on d) (get_collection db1 into) of
              None \<Rightarrow>
                (case wnm of
                   Discard \<Rightarrow> (Inr (), db1)
                 | Insert \<Rightarrow> insert_one into d db1)
            | Some e \<Rightarrow>
                (case wm of
                   KeepExisting \<Rightarrow> (Inr (), db1)
                 | WhenMatchedPipeline f \<Rightarrow>
                     (case f e d of
                        Inl err \<Rightarrow> (Inl err, db1)
                      | Inr e1 \<Rightarrow> replace_one into e e1 db1))))"

fun merge_all ::
  "string \<Rightarrow> string list \<Rightarrow> when_matched \<Rightarrow> when_not_matched \<Rightarrow> doc list \<Rightarrow> unit action" where
  "merge_all into on wm wnm [] = return ()"
| "merge_all into on wm wnm (d # ds) =
     and_then (merge_one into on wm wnm d) (\<lambda>_. merge_all into on wm wnm ds)"

definition merge_stage ::
  "string \<Rightarrow> string list \<Rightarrow> when_matched \<Rightarrow> when_not_matched \<Rightarrow> doc list \<Rightarrow> unit action" where
  "merge_stage into on wm wnm docs db =
     (if (on, True) \<in> set (get_indexes db into) then merge_all into on wm wnm docs db
      else (Inl (OperationFailure ''$merge: no unique index on the fields''), db))"

text \<open>
  \<open>_finalize_frames\<close>: \<open>ids_map\<close> maps the key of every sample of the destination to its
  \<open>_id\<close>; for every value of \<open>frame_key_field\<close> among the frames an \<open>UpdateMany\<close> is
  built, which raises \<open>KeyError\<close> when \<open>ids_map\<close> has no such key; then the updates are
  written.
\<close>

fun update_ops :: "(val \<times> val) list \<Rightarrow> val list \<Rightarrow> error + (val \<times> val) list" where
  "update_ops ids_map [] = Inr []"
| "update_ops ids_map (k # ks) =
     (case map_of ids_map k of
        None \<Rightarrow> Inl (KeyError (MissingKey k))
      | Some i \<Rightarrow> attempt (update_ops ids_map ks) (\<lambda>ops. Inr ((k, i) # ops)))"

definition matches_value :: "doc \<Rightarrow> string \<Rightarrow> val \<Rightarrow> bool" where
  "matches_value d k v = (map_of d k = Some v \<or> (v = VNull \<and> map_of d k = None))"

text \<open>Modelled from the spec: \<open>foo.bulk_write\<close>, which is not in \<open>dataset.py\<close> ("the first
  underlying write error is unwrapped and re-raised with its message"), here for a list
  of \<open>UpdateMany\<close> operations that set \<open>_sample_id\<close>.\<close>

fun bulk_write_updates :: "string \<Rightarrow> string \<Rightarrow> (val \<times> val) list \<Rightarrow> unit action" where
  "bulk_write_updates cname frame_key_field [] db = (Inr (), db)"
| "bulk_write_updates cname frame_key_field (op # ops) db =
     (let docs = map (\<lambda>f. if matches_value f frame_key_field (fst op)
                           then dict_set ''_sample_id'' (snd op) f else f)
                     (get_collection db cname)
      in if unique_ok (get_indexes db cname) docs
         then bulk_write_updates cname frame_key_field ops (set_collection cname docs db)
         else (Inl (ValueError WriteErrorMessage), db))"

definition finalize_frames :: "Dataset \<Rightarrow> string \<Rightarrow> string \<Rightarrow> unit action" where
  "finalize_frames sample_collection key_field frame_key_field db =
     (let samples = get_collection db (sample_collection_name (doc sample_collection));
          ids_map = rev (map (\<lambda>s. (or_null (map_of s key_field), or_null (map_of s ''_id'')))
                           samples);
          frames = get_collection db (frame_collection_name sample_collection);
          keys = remdups (List.map_filter (\<lambda>f. map_of f frame_key_field) frames)
      in case update_ops ids_map keys of
           Inl e \<Rightarrow> (Inl e, db)
         | Inr ops \<Rightarrow>
             bulk_write_updates (frame_collection_name sample_collection) frame_key_field
               ops db)"

definition unset_everywhere :: "string \<Rightarrow> string \<Rightarrow> unit action" where
  "unset_everywhere cname field db =
     (Inr (), set_collection cname (map (unset_fields [field]) (get_collection db cname)) db)"

text \<open>
  \<open>_merge_samples_pipeline\<close> from the dataset \<open>src\<close> into the dataset \<open>dst\<close>, called with
  \<open>fields=None\<close> and \<open>omit_fields=None\<close> as \<open>merge_samples\<close> does by default. First the
  merge of the samples with the restoration of the indexes, then the merge of the frames.
\<close>

definition merge_sample_docs ::
  "merge_env \<Rightarrow> Dataset \<Rightarrow> Dataset \<Rightarrow> string \<Rightarrow> bool \<Rightarrow> bool \<Rightarrow> bool \<Rightarrow> bool \<Rightarrow> unit action" where
  "merge_sample_docs env src dst key_field skip_existing insert_new merge_lists overwrite db =
     (let default_fields = filter (\<lambda>f. f \<noteq> ''id'') (default_sample_field_names env);
          sample_pipeline = Dataset_pipeline src None False True False;
          omit0 = filter (\<lambda>f. f \<noteq> key_field) [''id''];
          omit1 = (if insert_new then filter (\<lambda>f. f \<notin> set default_fields) omit0 else omit0);
          unset = map (dict_get (db_fields_map env)) omit1;
          docs = map (unset_fields unset)
                   (aggregate (\<lambda>st ds. ds) (get_collection db (sample_collection_name (doc src)))
                      sample_pipeline);
          when_not_matched = (if insert_new then Insert else Discard)
      in if skip_existing
         then merge_stage (sample_collection_name (doc dst)) [key_field] KeepExisting
                when_not_matched docs db
         else
           (case merge_docs (label_list_field env) (get_field_schema src False) merge_lists
                   None None [] overwrite of
              Inl e \<Rightarrow> (Inl e, db)
            | Inr when_matched \<Rightarrow>
                merge_stage (sample_collection_name (doc dst)) [key_field]
                  (WhenMatchedPipeline when_matched) when_not_matched docs db))"

definition merge_frame_docs ::
  "merge_env \<Rightarrow> Dataset \<Rightarrow> Dataset \<Rightarrow> string \<Rightarrow> string \<Rightarrow> bool \<Rightarrow> bool \<Rightarrow> bool \<Rightarrow> unit action" where
  "merge_frame_docs env src dst key_field frame_key_field skip_existing merge_lists overwrite db =
     (let omit = filter (\<lambda>f. f \<noteq> frame_key_field \<and> f \<noteq> ''frame_number'') [''id'', ''_sample_id''];
          unset = map (dict_get (frame_db_fields_map env)) omit;
          docs = map (unset_fields unset)
                   (if media_type (doc src) = Some VIDEO
                    then frames_only_docs (get_collection db (sample_collection_name (doc src)))
                           (get_collection db (frame_collection_name src))
                    else get_collection db (sample_collection_name (doc src)))
      in if skip_existing
         then merge_stage (frame_collection_name dst) [frame_key_field, ''frame_number'']
                KeepExisting Insert docs db
         else
           (case merge_docs (label_list_field env)
                   (case get_frame_field_schema src False of None \<Rightarrow> [] | Some s \<Rightarrow> s)
                   merge_lists None None [] overwrite of
              Inl e \<Rightarrow> (Inl e, db)
            | Inr when_frame_matched \<Rightarrow>
                merge_stage (frame_collection_name dst) [frame_key_field, ''frame_number'']
                  (WhenMatchedPipeline when_frame_matched) Insert docs db))"

definition merge_samples_pipeline ::
  "merge_env \<Rightarrow> Dataset \<Rightarrow> Dataset \<Rightarrow> string \<Rightarrow> bool \<Rightarrow> bool \<Rightarrow> bool \<Rightarrow> bool \<Rightarrow> unit action" where
  "merge_samples_pipeline env src dst key_field0 skip_existing insert_new merge_lists overwrite =
     (let key_field = dict_get (db_fields_map env) key_field0;
          is_video = (media_type (doc dst) = Some VIDEO);
          frame_key_field = ''_merge_key'';
          frame_index_spec = ([frame_key_field, ''frame_number''], True)
      in and_then (if key_field \<noteq> ''_id''
                   then and_then (ensure_index src key_field True) (\<lambda>s.
                        and_then (ensure_index dst key_field True) (\<lambda>d. return (s, d)))
                   else return ((False, False), (False, False))) (\<lambda>ix.
         and_then (if is_video
                   then and_then (index_frames dst key_field frame_key_field) (\<lambda>_.
                        and_then (index_frames src key_field frame_key_field) (\<lambda>_.
                        and_then (coll_create_index (frame_collection_name dst)
                                    frame_index_spec) (\<lambda>_.
                        coll_create_index (frame_collection_name src) frame_index_spec)))
                   else return ()) (\<lambda>_.
         and_then (merge_sample_docs env src dst key_field skip_existing insert_new
                     merge_lists overwrite) (\<lambda>_.
         and_then (if fst (fst ix) then drop_index src key_field else return ()) (\<lambda>_.
         and_then (if snd (fst ix) then create_index src key_field False else return ()) (\<lambda>_.
         and_then (if fst (snd ix) then drop_index dst key_field else return ()) (\<lambda>_.
         and_then (if snd (snd ix) then create_index dst key_field False else return ()) (\<lambda>_.
         if is_video
         then and_then (merge_frame_docs env src dst key_field frame_key_field skip_existing
                          merge_lists overwrite) (\<lambda>_.
              and_then (coll_drop_index (frame_collection_name dst) (fst frame_index_spec)) (\<lambda>_.
              and_then (coll_drop_index (frame_collection_name src) (fst frame_index_spec)) (\<lambda>_.
              and_then (finalize_frames dst key_field frame_key_field) (\<lambda>_.
              and_then (unset_everywhere (frame_collection_name src) frame_key_field) (\<lambda>_.
              unset_everywhere (frame_collection_name dst) frame_key_field)))))
         else return ()))))))))"

section \<open>Predicates of the statements\<close>

text \<open>
  The document that the instance holds in memory is the document stored under its name:
  no change of it is unsaved and no other client has changed it.
\<close>

definition saved :: "Dataset \<Rightarrow> database \<Rightarrow> bool" where
  "saved self db =
     (List.find (\<lambda>d. name d = name (doc self)) (dataset_docs db) = Some (doc self))"

text \<open>
  From one state of the instance to a later one the media type, the name and the sample
  collection are the same and no field has left the schema of the samples.
\<close>

definition extends :: "Dataset \<Rightarrow> Dataset \<Rightarrow> bool" where
  "extends self self1 =
     (media_type (doc self1) = media_type (doc self) \<and>
      name (doc self1) = name (doc self) \<and>
      sample_collection_name (doc self1) = sample_collection_name (doc self) \<and>
      set (map fst (sample_doc_cls self)) \<subseteq> set (map fst (sample_doc_cls self1)))"

text \<open>
  The consistency of the frames of a dataset: every frame document has a \<open>_sample_id\<close>
  that is the \<open>_id\<close> of a sample of the dataset.
\<close>

definition frames_consistent :: "Dataset \<Rightarrow> database \<Rightarrow> bool" where
  "frames_consistent self db =
     list_all (\<lambda>f. case map_of f ''_sample_id'' of
                      None \<Rightarrow> False
                    | Some i \<Rightarrow>
                        list_ex (\<lambda>s. map_of s ''_id'' = Some i)
                          (get_collection db (sample_collection_name (doc self))))
       (get_collection db (frame_collection_name self))"

section \<open>Examples\<close>

text \<open>
  A video dataset with one sample and no declared field, in a database that holds
  nothing else.
\<close>

definition example_doc :: dataset_doc where
  "example_doc = \<lparr>name = ''d'', media_type = Some ''video'',
     sample_collection_name = ''samples.1'', persistent = False, sample_fields = [],
     frame_fields = [], evaluations = [], brain_methods = []\<rparr>"

definition example_dataset :: Dataset where
  "example_dataset = \<lparr>doc = example_doc, deleted_flag = Some False,
     sample_doc_cls = [], frame_doc_cls = [], members = []\<rparr>"

definition example_db :: database where
  "example_db = \<lparr>dataset_docs = [example_doc],
     collections = [(''samples.1'', [[(''_id'', VOid 1), (''filepath'', VStr ''a.mp4'')]])],
     indexes = [(''samples.1'', [([''filepath''], False)]),
                (''frames.samples.1'', [([''_sample_id'', ''frame_number''], True)])],
     gridfs = [], next_oid = 2\<rparr>"

text \<open>
  Four samples to iterate over.
\<close>

definition example_samples :: "doc list" where
  "example_samples =
     [[(''_id'', VOid 1)], [(''_id'', VOid 2)], [(''_id'', VOid 3)], [(''_id'', VOid 4)]]"

text \<open>
  Field classes that imply a type for every value but \<open>None\<close> and accept every value;
  an image dataset without samples; a sample whose field \<open>foo\<close> is \<open>None\<close>, one whose
  field \<open>foo\<close> is a string, and a video sample.
\<close>

definition example_api :: field_api where
  "example_api =
     \<lparr>implied_field = (\<lambda>v. case v of
          VNull \<Rightarrow> Inl (ValidationError ''None'')
        | VArr xs \<Rightarrow> Inr ListField
        | VObj kvs \<Rightarrow> (case map_of kvs ''_cls'' of
                         Some (VStr c) \<Rightarrow> Inr (EmbeddedDocumentField c)
                       | _ \<Rightarrow> Inr (OtherField ''DictField''))
        | VBool b \<Rightarrow> Inr (OtherField ''BooleanField'')
        | VInt i \<Rightarrow> Inr (OtherField ''IntField'')
        | VStr s \<Rightarrow> Inr (OtherField ''StringField'')
        | VOid i \<Rightarrow> Inr (OtherField ''ObjectIdField'')),
      validate_field = (\<lambda>ft v. True),
      null_field = (\<lambda>ft. True)\<rparr>"

definition image_doc :: dataset_doc where
  "image_doc = \<lparr>name = ''images'', media_type = Some ''image'',
     sample_collection_name = ''samples.2'', persistent = False,
     sample_fields = [(''filepath'', OtherField ''StringField'')],
     frame_fields = [], evaluations = [], brain_methods = []\<rparr>"

definition image_dataset :: Dataset where
  "image_dataset = \<lparr>doc = image_doc, deleted_flag = Some False,
     sample_doc_cls = [(''filepath'', OtherField ''StringField'')],
     frame_doc_cls = [(''frame_number'', OtherField ''FrameNumberField'')], members = []\<rparr>"

definition image_db :: database where
  "image_db = \<lparr>dataset_docs = [image_doc], collections = [],
     indexes = [(''samples.2'', [([''filepath''], False)]),
                (''frames.samples.2'', [([''_sample_id'', ''frame_number''], True)])],
     gridfs = [], next_oid = 1\<rparr>"



definition video_sample :: sample where
  "video_sample = \<lparr>s_media_type = ''video'',
     s_fields = [(''filepath'', VStr ''c.mp4'')],
     s_frames = [], s_in_db = False\<rparr>"

text \<open>
  The example dataset made persistent, and its clone \<open>copy\<close> made at the time \<open>2021\<close>.
\<close>

definition example_defaults :: default_fields where
  "example_defaults =
     \<lparr>default_sample_fields = [(''id'', OtherField ''ObjectIdField''),
                               (''filepath'', OtherField ''StringField'')],
      default_frame_fields = [(''id'', OtherField ''ObjectIdField''),
                              (''frame_number'', OtherField ''FrameNumberField'')]\<rparr>"

definition persistent_dataset :: Dataset where
  "persistent_dataset = example_dataset\<lparr>doc := example_doc\<lparr>persistent := True\<rparr>\<rparr>"

definition persistent_db :: database where
  "persistent_db = example_db\<lparr>dataset_docs := [example_doc\<lparr>persistent := True\<rparr>]\<rparr>"

definition copy_dataset :: Dataset where
  "copy_dataset =
     \<lparr>doc = example_doc\<lparr>name := ''copy'', sample_collection_name := ''samples.2021''\<rparr>,
      deleted_flag = Some False,
      sample_doc_cls = default_sample_fields example_defaults,
      frame_doc_cls = default_frame_fields example_defaults,
      members = []\<rparr>"

definition persistent_db_cloned :: database where
  "persistent_db_cloned =
     \<lparr>dataset_docs = [example_doc\<lparr>persistent := True\<rparr>, doc copy_dataset],
      collections =
        [(''frames.samples.2021'', []),
         (''samples.2021'', [[(''_id'', VOid 1), (''filepath'', VStr ''a.mp4'')]]),
         (''samples.1'', [[(''_id'', VOid 1), (''filepath'', VStr ''a.mp4'')]])],
      indexes =
        [(''frames.samples.2021'', [([''_sample_id'', ''frame_number''], True)]),
         (''samples.2021'', [([''filepath''], False)]),
         (''samples.1'', [([''filepath''], False)]),
         (''frames.samples.1'', [([''_sample_id'', ''frame_number''], True)])],
      gridfs = [], next_oid = 2\<rparr>"







definition example_label_list_field :: "string \<Rightarrow> string option" where
  "example_label_list_field t =
     map_of [(''Classifications'', ''classifications''), (''Detections'', ''detections''),
             (''Keypoints'', ''keypoints''), (''Polylines'', ''polylines'')] t"

text \<open>
  The environment of the merges: the field \<open>id\<close> is the field \<open>_id\<close> of the database.
  An image dataset with one sample, and the database after that sample has been
  duplicated.
\<close>

definition example_env :: merge_env where
  "example_env =
     \<lparr>db_fields_map = [(''id'', ''_id'')],
      frame_db_fields_map = [(''id'', ''_id'')],
      default_sample_field_names =
        [''id'', ''filepath'', ''tags'', ''metadata'', ''_media_type'', ''_rand''],
      label_list_field = example_label_list_field\<rparr>"

definition photos_doc :: dataset_doc where
  "photos_doc = \<lparr>name = ''photos'', media_type = Some ''image'',
     sample_collection_name = ''samples.3'', persistent = False,
     sample_fields = [(''id'', OtherField ''ObjectIdField''),
                      (''filepath'', OtherField ''StringField''),
                      (''tags'', ListField)],
     frame_fields = [], evaluations = [], brain_methods = []\<rparr>"

definition photos :: Dataset where
  "photos = \<lparr>doc = photos_doc, deleted_flag = Some False,
     sample_doc_cls = sample_fields photos_doc, frame_doc_cls = [], members = []\<rparr>"

definition photos_db :: database where
  "photos_db = \<lparr>dataset_docs = [photos_doc],
     collections = [(''samples.3'',
        [[(''_id'', VOid 1), (''filepath'', VStr ''a.jpg''), (''tags'', VArr [VStr ''x''])]])],
     indexes = [(''samples.3'', [([''filepath''], False)]),
                (''frames.samples.3'', [([''_sample_id'', ''frame_number''], True)])],
     gridfs = [], next_oid = 2\<rparr>"

definition photos_db_merged :: database where
  "photos_db_merged = photos_db\<lparr>collections := [(''samples.3'',
        [[(''_id'', VOid 1), (''filepath'', VStr ''a.jpg''), (''tags'', VArr [VStr ''x''])],
         [(''_id'', VOid 2), (''filepath'', VStr ''a.jpg''), (''tags'', VArr [VStr ''x''])]])],
      next_oid := 3\<rparr>"

text \<open>
  Two video datasets \<open>dst\<close> and \<open>src\<close> with one sample and one frame each; the database
  after the merge that fails, and after the merge that completes.
\<close>

definition films_doc :: "string \<Rightarrow> string \<Rightarrow> dataset_doc" where
  "films_doc n c = \<lparr>name = n, media_type = Some ''video'',
     sample_collection_name = c, persistent = False,
     sample_fields = [(''id'', OtherField ''ObjectIdField''),
                      (''filepath'', OtherField ''StringField'')],
     frame_fields = [(''id'', OtherField ''ObjectIdField''),
                     (''frame_number'', OtherField ''FrameNumberField'')],
     evaluations = [], brain_methods = []\<rparr>"

definition films :: "string \<Rightarrow> string \<Rightarrow> Dataset" where
  "films n c = \<lparr>doc = films_doc n c, deleted_flag = Some False,
     sample_doc_cls = sample_fields (films_doc n c),
     frame_doc_cls = frame_fields (films_doc n c), members = []\<rparr>"

definition films_db :: database where
  "films_db = \<lparr>dataset_docs = [films_doc ''dst'' ''samples.10'', films_doc ''src'' ''samples.20''],
     collections =
       [(''samples.10'', [[(''_id'', VOid 1), (''filepath'', VStr ''a.mp4'')]]),
        (''frames.samples.10'',
           [[(''_id'', VOid 2), (''frame_number'', VInt 1), (''_sample_id'', VOid 1)]]),
        (''samples.20'', [[(''_id'', VOid 3), (''filepath'', VStr ''b.mp4'')]]),
        (''frames.samples.20'',
           [[(''_id'', VOid 4), (''frame_number'', VInt 1), (''_sample_id'', VOid 3)]])],
     indexes =
       [(''samples.10'', [([''filepath''], False)]),
        (''frames.samples.10'', [([''_sample_id'', ''frame_number''], True)]),
        (''samples.20'', [([''filepath''], False)]),
        (''frames.samples.20'', [([''_sample_id'', ''frame_number''], True)])],
     gridfs = [], next_oid = 5\<rparr>"

definition films_db_failed :: database where
  "films_db_failed = films_db\<lparr>collections :=
       [(''frames.samples.10'',
           [[(''_id'', VOid 2), (''frame_number'', VInt 1), (''_sample_id'', VOid 1),
             (''_merge_key'', VStr ''a.mp4'')],
            [(''_id'', VOid 5), (''frame_number'', VInt 1), (''_merge_key'', VStr ''b.mp4'')]]),
        (''frames.samples.20'',
           [[(''_id'', VOid 4), (''frame_number'', VInt 1), (''_sample_id'', VOid 3),
             (''_merge_key'', VStr ''b.mp4'')]]),
        (''samples.10'', [[(''_id'', VOid 1), (''filepath'', VStr ''a.mp4'')]]),
        (''samples.20'', [[(''_id'', VOid 3), (''filepath'', VStr ''b.mp4'')]])],
     indexes :=
       [(''frames.samples.20'', [([''_sample_id'', ''frame_number''], True)]),
        (''frames.samples.10'', [([''_sample_id'', ''frame_number''], True)]),
        (''samples.10'', [([''filepath''], False)]),
        (''samples.20'', [([''filepath''], False)])],
     next_oid := 6\<rparr>"

definition films_db_merged :: database where
  "films_db_merged = films_db\<lparr>collections :=
       [(''frames.samples.10'',
           [[(''_id'', VOid 2), (''frame_number'', VInt 1), (''_sample_id'', VOid 1)],
            [(''_id'', VOid 6), (''frame_number'', VInt 1), (''_sample_id'', VOid 5)]]),
        (''frames.samples.20'',
           [[(''_id'', VOid 4), (''frame_number'', VInt 1), (''_sample_id'', VOid 3)]]),
        (''samples.10'', [[(''_id'', VOid 1), (''filepath'', VStr ''a.mp4'')],
                          [(''_id'', VOid 5), (''filepath'', VStr ''b.mp4'')]]),
        (''samples.20'', [[(''_id'', VOid 3), (''filepath'', VStr ''b.mp4'')]])],
     indexes :=
       [(''frames.samples.20'', [([''_sample_id'', ''frame_number''], True)]),
        (''frames.samples.10'', [([''_sample_id'', ''frame_number''], True)]),
        (''samples.10'', [([''filepath''], False)]),
        (''samples.20'', [([''filepath''], False)])],
     next_oid := 7\<rparr>"

section \<open>Deleted datasets\<close>

lemma clear_in_attributes: "''clear'' \<in> set Dataset_attributes"
  by (simp add: Dataset_attributes_def)

lemma sample_doc_cls_in_attributes: "''_sample_doc_cls'' \<in> set Dataset_attributes"
  by (simp add: Dataset_attributes_def)

lemma always_available_attributes:
  "filter always_available Dataset_attributes =
     [''__init__'', ''__len__'', ''__getitem__'', ''__delitem__'', ''__getattribute__'']"
  by code_simp

lemma delete_live:
  "deleted_flag self = Some False \<Longrightarrow>
   delete self db =
     Inr (delete_dataset_doc (doc self)
            (drop_collection (frame_collection_name self)
               (drop_collection (sample_collection_name (doc self)) db)),
          self\<lparr>deleted_flag := Some True\<rparr>)"
  using clear_in_attributes sample_doc_cls_in_attributes
  by (simp add: delete_def clear_def getattribute_def always_available_def startswith_def
      super_getattribute_def)

lemma delete_Inr_flag:
  "delete self db = Inr (db', self') \<Longrightarrow> self' = self\<lparr>deleted_flag := Some True\<rparr>"
  by (auto simp add: delete_def split: sum.splits)

lemma delete_example:
  "delete example_dataset example_db =
     Inr (\<lparr>dataset_docs = [], collections = [], indexes = [], gridfs = [], next_oid = 2\<rparr>,
          example_dataset\<lparr>deleted_flag := Some True\<rparr>)"
  by (simp add: delete_live example_dataset_def example_db_def example_doc_def
      delete_dataset_doc_def drop_collection_def frame_collection_name_def run_results_def
      List.map_filter_simps)

text \<open>
  C5, as the code has it. When \<open>delete\<close> has completed, \<open>_deleted\<close> is set. The
  attributes \<open>name\<close> and \<open>deleted\<close> can still be read, and so can \<open>_deleted\<close>, \<open>_doc\<close>
  and every name that starts with two underscores, which is read as before the deletion.
  Reading any other attribute raises the ValueError "Dataset is deleted". Of the attributes
  that the class defines, the only ones that can still be read are \<open>__init__\<close>,
  \<open>__len__\<close>, \<open>__getitem__\<close>, \<open>__delitem__\<close> and \<open>__getattribute__\<close>. Indexing the
  instance raises the same ValueError for a slice and for a string, but for an integer it
  raises the ValueError of the numeric indices. The state is permanent in that \<open>delete\<close>
  and \<open>clear\<close> are refused with the same ValueError, whatever the database holds then.
\<close>

theorem deleted_guard:
  assumes "delete self db = Inr (db', self')"
  shows "deleted_flag self' = Some True \<and>
         getattribute self' ''name'' = Inr (AStr (name (doc self))) \<and>
         getattribute self' ''deleted'' = Inr (ABool True) \<and>
         getattribute self' ''_deleted'' = Inr (ABool True) \<and>
         getattribute self' ''_doc'' = Inr (ADoc (doc self)) \<and>
         (\<forall>n. startswith n ''__'' \<longrightarrow> getattribute self' n = getattribute self n) \<and>
         (\<forall>n. \<not> startswith n ''__'' \<and> n \<notin> {''name'', ''deleted'', ''_deleted'', ''_doc''} \<longrightarrow>
              getattribute self' n = Inl (ValueError (DatasetDeleted (name (doc self))))) \<and>
         filter (\<lambda>n. getattribute self' n \<noteq> Inl (ValueError (DatasetDeleted (name (doc self)))))
           Dataset_attributes =
           [''__init__'', ''__len__'', ''__getitem__'', ''__delitem__'', ''__getattribute__''] \<and>
         (\<forall>db2 a b c. getitem self' db2 (Slice a b c) =
              (Inl (ValueError (DatasetDeleted (name (doc self)))), [])) \<and>
         (\<forall>db2 s. getitem self' db2 (Other s) =
              (Inl (ValueError (DatasetDeleted (name (doc self)))), [])) \<and>
         (\<forall>db2 i. getitem self' db2 (Integral i) =
              (Inl (ValueError NumericIndexNotSupported), [])) \<and>
         (\<forall>db2. delete self' db2 = Inl (ValueError (DatasetDeleted (name (doc self)))) \<and>
                clear self' db2 = Inl (ValueError (DatasetDeleted (name (doc self)))))"
proof -
  have s: "self' = self\<lparr>deleted_flag := Some True\<rparr>"
    using assms by (rule delete_Inr_flag)
  have g: "\<not> always_available n \<Longrightarrow>
      getattribute self' n = Inl (ValueError (DatasetDeleted (name (doc self))))" for n
    by (simp add: s getattribute_def)
  have h: "always_available n \<Longrightarrow> getattribute self' n = super_getattribute self' n" for n
    by (simp add: getattribute_def)
  have under: "getattribute self' n = getattribute self n" if "startswith n ''__''" for n
  proof -
    from that have "n \<noteq> ''name''" "n \<noteq> ''_doc''" "n \<noteq> ''deleted''" "n \<noteq> ''_deleted''"
      by (auto simp add: startswith_def)
    with that show ?thesis
      by (simp add: s getattribute_def always_available_def super_getattribute_def)
  qed
  have guarded: "getattribute self' n = Inl (ValueError (DatasetDeleted (name (doc self))))"
    if "\<not> startswith n ''__'' \<and> n \<notin> {''name'', ''deleted'', ''_deleted'', ''_doc''}" for n
    using that by (intro g) (simp add: always_available_def)
  have c: "\<not> always_available ''clear''" "\<not> always_available ''_sample_doc_cls''"
    "\<not> always_available ''view''" "\<not> always_available ''_sample_collection''"
    by (simp_all add: always_available_def startswith_def)
  have d: "delete self' db2 = Inl (ValueError (DatasetDeleted (name (doc self))))" for db2
    by (simp add: delete_def g [OF c(1)])
  have e: "clear self' db2 = Inl (ValueError (DatasetDeleted (name (doc self))))" for db2
    by (simp add: clear_def g [OF c(2)])
  have i: "getitem self' db2 (Slice a b c) =
      (Inl (ValueError (DatasetDeleted (name (doc self)))), [])" for db2 a b c
    by (simp add: getitem_def g [OF c(3)])
  have j: "getitem self' db2 (Other x) =
      (Inl (ValueError (DatasetDeleted (name (doc self)))), [])" for db2 x
    by (simp add: getitem_def g [OF c(4)] Let_def)
  have k: "getitem self' db2 (Integral x) = (Inl (ValueError NumericIndexNotSupported), [])"
    for db2 x
    by (simp add: getitem_def)
  have eq: "(getattribute self' n \<noteq> Inl (ValueError (DatasetDeleted (name (doc self))))) =
      always_available n" for n
  proof (cases "always_available n")
    case True
    then show ?thesis
      by (simp add: getattribute_def super_getattribute_def split: option.splits)
  next
    case False
    then show ?thesis by (simp add: g)
  qed
  have f: "filter (\<lambda>n. getattribute self' n \<noteq> Inl (ValueError (DatasetDeleted (name (doc self)))))
           Dataset_attributes =
           [''__init__'', ''__len__'', ''__getitem__'', ''__delitem__'', ''__getattribute__'']"
    unfolding eq by (rule always_available_attributes)
  have basic: "deleted_flag self' = Some True \<and>
         getattribute self' ''name'' = Inr (AStr (name (doc self))) \<and>
         getattribute self' ''deleted'' = Inr (ABool True) \<and>
         getattribute self' ''_deleted'' = Inr (ABool True) \<and>
         getattribute self' ''_doc'' = Inr (ADoc (doc self))"
    by (simp add: s getattribute_def always_available_def super_getattribute_def)
  from under guarded have names:
    "(\<forall>n. startswith n ''__'' \<longrightarrow> getattribute self' n = getattribute self n) \<and>
     (\<forall>n. \<not> startswith n ''__'' \<and> n \<notin> {''name'', ''deleted'', ''_deleted'', ''_doc''} \<longrightarrow>
          getattribute self' n = Inl (ValueError (DatasetDeleted (name (doc self)))))"
    by blast
  from i j k d e have ops:
    "(\<forall>db2 a b c. getitem self' db2 (Slice a b c) =
          (Inl (ValueError (DatasetDeleted (name (doc self)))), [])) \<and>
     (\<forall>db2 s. getitem self' db2 (Other s) =
          (Inl (ValueError (DatasetDeleted (name (doc self)))), [])) \<and>
     (\<forall>db2 i. getitem self' db2 (Integral i) =
          (Inl (ValueError NumericIndexNotSupported), [])) \<and>
     (\<forall>db2. delete self' db2 = Inl (ValueError (DatasetDeleted (name (doc self)))) \<and>
            clear self' db2 = Inl (ValueError (DatasetDeleted (name (doc self)))))"
    by simp
  show ?thesis
    using basic names f ops by (simp only: simp_thms)
qed

text \<open>Witness for C5: the example dataset is deleted, and \<open>count\<close> is then refused.\<close>

theorem deleted_guard_witness:
  "delete example_dataset example_db =
     Inr (\<lparr>dataset_docs = [], collections = [], indexes = [], gridfs = [], next_oid = 2\<rparr>,
          example_dataset\<lparr>deleted_flag := Some True\<rparr>) \<and>
   getattribute (example_dataset\<lparr>deleted_flag := Some True\<rparr>) ''count'' =
     Inl (ValueError (DatasetDeleted ''d'')) \<and>
   getattribute (example_dataset\<lparr>deleted_flag := Some True\<rparr>) ''__len__'' =
     Inr (AMember ''__len__'')"
proof -
  have n: "\<not> startswith ''count'' ''__'' \<and>
      ''count'' \<notin> {''name'', ''deleted'', ''_deleted'', ''_doc''}"
    by (simp add: startswith_def)
  have u: "startswith ''__len__'' ''__''"
    by (simp add: startswith_def)
  have l: "getattribute example_dataset ''__len__'' = Inr (AMember ''__len__'')"
    by (simp add: getattribute_def always_available_def startswith_def super_getattribute_def
        Dataset_attributes_def)
  have m: "name (doc example_dataset) = ''d''"
    by (simp add: example_dataset_def example_doc_def)
  note g = deleted_guard [OF delete_example]
  from g have a: "\<forall>n. startswith n ''__'' \<longrightarrow>
      getattribute (example_dataset\<lparr>deleted_flag := Some True\<rparr>) n =
      getattribute example_dataset n"
    by (elim conjE)
  from g have b: "\<forall>n. \<not> startswith n ''__'' \<and> n \<notin> {''name'', ''deleted'', ''_deleted'', ''_doc''} \<longrightarrow>
      getattribute (example_dataset\<lparr>deleted_flag := Some True\<rparr>) n =
      Inl (ValueError (DatasetDeleted (name (doc example_dataset))))"
    by (elim conjE)
  have c: "getattribute (example_dataset\<lparr>deleted_flag := Some True\<rparr>) ''count'' =
      Inl (ValueError (DatasetDeleted (name (doc example_dataset))))"
    by (rule mp [OF spec [OF b] n])
  have d: "getattribute (example_dataset\<lparr>deleted_flag := Some True\<rparr>) ''__len__'' =
      getattribute example_dataset ''__len__''"
    by (rule mp [OF spec [OF a] u])
  show ?thesis
    unfolding c d l m using delete_example by simp
qed

text \<open>
  Counterexample to C5 as stated: after \<open>delete\<close>, reading \<open>_doc\<close>, which is neither
  \<open>name\<close> nor \<open>deleted\<close>, does not fail; it returns the dataset document.
\<close>

theorem deleted_guard_counterexample:
  "delete example_dataset example_db =
     Inr (\<lparr>dataset_docs = [], collections = [], indexes = [], gridfs = [], next_oid = 2\<rparr>,
          example_dataset\<lparr>deleted_flag := Some True\<rparr>) \<and>
   ''_doc'' \<noteq> ''name'' \<and> ''_doc'' \<noteq> ''deleted'' \<and>
   getattribute (example_dataset\<lparr>deleted_flag := Some True\<rparr>) ''_doc'' = Inr (ADoc example_doc)"
  by (simp add: delete_example)
     (simp add: example_dataset_def getattribute_def always_available_def
        super_getattribute_def)

section \<open>Numeric indices\<close>

text \<open>
  C9. For every integer argument \<open>__getitem__\<close> raises the ValueError "Accessing dataset
  samples by numeric index is not supported"; it sends no query to the sample collection,
  whatever the state of the instance and of the database. The function returns no new
  state: nothing is written.
\<close>

theorem getitem_integral:
  "getitem self db (Integral i) = (Inl (ValueError NumericIndexNotSupported), [])"
  by (simp add: getitem_def)

section \<open>Pipeline compilation\<close>

text \<open>
  C4, as the code has it. On a dataset that is not a video dataset the three flags have no
  effect and the result is the given pipeline, with no step added. On a video dataset with
  \<open>frames_only\<close>, unless both \<open>attach_frames\<close> and \<open>detach_frames\<close> are set, the result
  is the join step, the given pipeline, and the three steps that project to the frames,
  unwind them and promote each frame to the root. When all three flags are set,
  \<open>detach_frames\<close> wins: the result is the join step, the given pipeline and the
  projection that removes the frames.
\<close>

theorem pipeline_flags:
  "(media_type (doc self) \<noteq> Some VIDEO \<longrightarrow>
      Dataset_pipeline self p a d f = (case p of None \<Rightarrow> [] | Some q \<Rightarrow> q)) \<and>
   (media_type (doc self) = Some VIDEO \<and> \<not> (a \<and> d) \<longrightarrow>
      Dataset_pipeline self p a d True =
        lookup_frames self # (case p of None \<Rightarrow> [] | Some q \<Rightarrow> q) @ frames_only_steps) \<and>
   (media_type (doc self) = Some VIDEO \<longrightarrow>
      Dataset_pipeline self p True True True =
        lookup_frames self # (case p of None \<Rightarrow> [] | Some q \<Rightarrow> q) @ detach_frames_steps)"
  by (auto simp add: Dataset_pipeline_def split: option.splits)

text \<open>Witness for C4: an image dataset, and the video example with \<open>frames_only\<close> alone.\<close>

theorem pipeline_flags_witness:
  "Dataset_pipeline (example_dataset\<lparr>doc := example_doc\<lparr>media_type := Some IMAGE\<rparr>\<rparr>)
     (Some [VObj [(''$limit'', VInt 5)]]) True True True = [VObj [(''$limit'', VInt 5)]] \<and>
   Dataset_pipeline example_dataset (Some [VObj [(''$limit'', VInt 5)]]) False False True =
     lookup_frames example_dataset # [VObj [(''$limit'', VInt 5)]] @ frames_only_steps \<and>
   Dataset_pipeline example_dataset (Some [VObj [(''$limit'', VInt 5)]]) True True True =
     lookup_frames example_dataset # [VObj [(''$limit'', VInt 5)]] @ detach_frames_steps"
  using pipeline_flags [of "example_dataset\<lparr>doc := example_doc\<lparr>media_type := Some IMAGE\<rparr>\<rparr>"
      "Some [VObj [(''$limit'', VInt 5)]]" True True True]
    pipeline_flags [of example_dataset "Some [VObj [(''$limit'', VInt 5)]]" False False]
  by (simp add: example_dataset_def example_doc_def VIDEO_def IMAGE_def)

text \<open>
  Counterexample to C4 as stated: on the video example with all three flags set, the
  compiled pipeline does not end with the three \<open>frames_only\<close> steps but with the
  projection that removes the frames.
\<close>

theorem pipeline_flags_counterexample:
  "media_type (doc example_dataset) = Some VIDEO \<and>
   Dataset_pipeline example_dataset None True True True =
     [lookup_frames example_dataset, VObj [(''$project'', VObj [(''frames'', VBool False)])]] \<and>
   last (Dataset_pipeline example_dataset None True True True) \<noteq> last frames_only_steps"
  by (simp add: Dataset_pipeline_def example_dataset_def example_doc_def VIDEO_def
      detach_frames_steps_def frames_only_steps_def)

section \<open>Expired cursors\<close>
















text \<open>
  Four samples; the first cursor expires after one sample and the second after two more,
  so the third pipeline skips three samples.
\<close>

lemma iter_example:
  "iter_samples (\<lambda>st docs. docs) example_samples [] [1, 2] 2 =
     [Issued [], Yielded (Sample [(''_id'', VOid 1)]),
      Issued [skip_step 1], Yielded (Sample [(''_id'', VOid 2)]),
        Yielded (Sample [(''_id'', VOid 3)]),
      Issued [skip_step 1, skip_step 2], Yielded (Sample [(''_id'', VOid 4)])]"
  by (simp add: Let_def aggregate_def skip_step_def example_samples_def numeral_2_eq_2)



section \<open>Schema expansion and the media type\<close>

lemma extends_refl: "extends self self"
  by (simp add: extends_def)

lemma extends_trans: "extends a b \<Longrightarrow> extends b c \<Longrightarrow> extends a c"
  by (auto simp add: extends_def)

lemma find_save_doc:
  "List.find (\<lambda>d'. name d' = name d) (dataset_docs (save_doc d db)) = Some d"
proof -
  have a: "List.find (\<lambda>d'. name d' = name d)
        (map (\<lambda>d'. if name d' = name d then d else d') ds) = Some d"
    if "name d \<in> set (map name ds)" for ds
    using that by (induction ds) auto
  have b: "List.find (\<lambda>d'. name d' = name d) (ds @ [d]) = Some d"
    if "name d \<notin> set (map name ds)" for ds
    using that by (induction ds) auto
  show ?thesis
    using a b by (simp add: save_doc_def)
qed

lemma find_save_doc':
  "name d = n \<Longrightarrow> List.find (\<lambda>d'. name d' = n) (dataset_docs (save_doc d db)) = Some d"
  using find_save_doc by blast

lemma add_implied_field_Inr:
  assumes "add_implied_field api frames (self, db) f v = Inr (self1, db1)"
  shows "extends self self1 \<and> saved self1 db1 \<and>
         (\<not> frames \<longrightarrow> f \<in> set (map fst (sample_doc_cls self1)))"
  using assms
  by (auto simp add: add_implied_field_def extends_def saved_def find_save_doc' Let_def
      split: sum.splits if_splits)

lemma expand_fields_Inr:
  "expand_fields api frames fs (e, self, db) = Inr (e1, self1, db1) \<Longrightarrow>
   extends self self1 \<and>
   ((e1 = e \<and> self1 = self \<and> db1 = db) \<or> (e1 \<and> saved self1 db1)) \<and>
   (\<not> frames \<longrightarrow> (\<forall>p \<in> set fs. fst p \<noteq> ''_id'' \<and> snd p \<noteq> VNull \<longrightarrow>
        fst p \<in> set (map fst (sample_doc_cls self1))))"
proof (induction fs arbitrary: e self db)
  case Nil
  then show ?case by (simp add: extends_refl)
next
  case (Cons p fs)
  obtain f v where p: "p = (f, v)" by (cases p)
  show ?case
  proof (cases "f = ''_id'' \<or> f \<in> set (map fst (if frames then frame_doc_cls self
                                           else sample_doc_cls self)) \<or> v = VNull")
    case True
    with Cons.prems p have r: "expand_fields api frames fs (e, self, db) = Inr (e1, self1, db1)"
      by (auto split: if_splits)
    from Cons.IH [OF r] have ih: "extends self self1"
      "(e1 = e \<and> self1 = self \<and> db1 = db) \<or> (e1 \<and> saved self1 db1)"
      "\<not> frames \<longrightarrow> (\<forall>p \<in> set fs. fst p \<noteq> ''_id'' \<and> snd p \<noteq> VNull \<longrightarrow>
        fst p \<in> set (map fst (sample_doc_cls self1)))"
      by blast+
    have "\<not> frames \<Longrightarrow> f \<noteq> ''_id'' \<Longrightarrow> v \<noteq> VNull \<Longrightarrow>
        f \<in> set (map fst (sample_doc_cls self1))"
      using True ih(1) by (auto simp add: extends_def)
    with ih show ?thesis by (auto simp add: p)
  next
    case False
    with Cons.prems p obtain self2 db2 where
      a: "add_implied_field api frames (self, db) f v = Inr (self2, db2)" and
      r: "expand_fields api frames fs (True, self2, db2) = Inr (e1, self1, db1)"
      by (auto split: sum.splits if_splits)
    from add_implied_field_Inr [OF a] have a': "extends self self2" "saved self2 db2"
      "\<not> frames \<longrightarrow> f \<in> set (map fst (sample_doc_cls self2))"
      by blast+
    from Cons.IH [OF r] have ih: "extends self2 self1"
      "(e1 = True \<and> self1 = self2 \<and> db1 = db2) \<or> (e1 \<and> saved self1 db1)"
      "\<not> frames \<longrightarrow> (\<forall>p \<in> set fs. fst p \<noteq> ''_id'' \<and> snd p \<noteq> VNull \<longrightarrow>
        fst p \<in> set (map fst (sample_doc_cls self1)))"
      by blast+
    have "\<not> frames \<Longrightarrow> f \<in> set (map fst (sample_doc_cls self1))"
      using a'(3) ih(1) by (auto simp add: extends_def)
    moreover have "extends self self1"
      using a'(1) ih(1) by (rule extends_trans)
    moreover have "e1 \<and> saved self1 db1"
      using ih(2) a'(2) by auto
    ultimately show ?thesis using ih(3) by (auto simp add: p)
  qed
qed

lemma expand_frames_Inr:
  "expand_frames api frs (e, self, db) = Inr (e1, self1, db1) \<Longrightarrow>
   extends self self1 \<and>
   ((e1 = e \<and> self1 = self \<and> db1 = db) \<or> (e1 \<and> saved self1 db1))"
proof (induction frs arbitrary: e self db)
  case Nil
  then show ?case by (simp add: extends_refl)
next
  case (Cons fr frs)
  from Cons.prems obtain e2 self2 db2 where
    a: "expand_fields api True (snd fr) (e, self, db) = Inr (e2, self2, db2)" and
    r: "expand_frames api frs (e2, self2, db2) = Inr (e1, self1, db1)"
    by (auto split: sum.splits)
  from expand_fields_Inr [OF a] Cons.IH [OF r] show ?case
    by (auto intro: extends_trans)
qed

lemma expand_samples_Inr:
  "expand_samples api ss (e, self, db) = Inr (e1, self1, db1) \<Longrightarrow>
   extends self self1 \<and>
   ((e1 = e \<and> self1 = self \<and> db1 = db) \<or> (e1 \<and> saved self1 db1)) \<and>
   (\<forall>s \<in> set ss. media_type (doc self1) = Some (s_media_type s) \<and>
      (\<forall>p \<in> set (s_fields s). fst p \<noteq> ''_id'' \<and> snd p \<noteq> VNull \<longrightarrow>
        fst p \<in> set (map fst (sample_doc_cls self1))))"
proof (induction ss arbitrary: e self db)
  case Nil
  then show ?case by (simp add: extends_refl)
next
  case (Cons s ss)
  from Cons.prems have m: "media_type (doc self) = Some (s_media_type s)"
    by (auto simp add: validate_media_type_def split: sum.splits if_splits)
  from Cons.prems obtain fe self2 db2 e3 self3 db3 where
    f: "(if media_type (doc self) = Some VIDEO
          then expand_frame_schema api (self, db) (s_frames s)
          else Inr (False, self, db)) = Inr (fe, self2, db2)" and
    a: "expand_fields api False (s_fields s) (e \<or> fe, self2, db2) = Inr (e3, self3, db3)" and
    r: "expand_samples api ss (e3, self3, db3) = Inr (e1, self1, db1)"
    by (auto split: sum.splits)
  have f': "extends self self2 \<and> ((fe = False \<and> self2 = self \<and> db2 = db) \<or> (fe \<and> saved self2 db2))"
  proof (cases "media_type (doc self) = Some VIDEO")
    case True
    with f have "expand_frames api (s_frames s) (False, self, db) = Inr (fe, self2, db2)"
      by (simp add: expand_frame_schema_def)
    from expand_frames_Inr [OF this] show ?thesis .
  next
    case False
    with f show ?thesis by (simp add: extends_refl)
  qed
  note a' = expand_fields_Inr [OF a]
  note ih = Cons.IH [OF r]
  have e12: "extends self self3" using f' a' by (auto intro: extends_trans)
  have e13: "extends self self1" using e12 ih by (auto intro: extends_trans)
  have e31: "extends self3 self1" using ih by simp
  have st: "(e1 = e \<and> self1 = self \<and> db1 = db) \<or> (e1 \<and> saved self1 db1)"
    using f' a' ih by auto
  have here: "media_type (doc self1) = Some (s_media_type s)"
    using m e13 by (simp add: extends_def)
  have flds: "\<forall>p \<in> set (s_fields s). fst p \<noteq> ''_id'' \<and> snd p \<noteq> VNull \<longrightarrow>
        fst p \<in> set (map fst (sample_doc_cls self1))"
  proof
    fix p assume p: "p \<in> set (s_fields s)"
    from a' p have "fst p \<noteq> ''_id'' \<and> snd p \<noteq> VNull \<longrightarrow>
        fst p \<in> set (map fst (sample_doc_cls self3))"
      by blast
    with e31 show "fst p \<noteq> ''_id'' \<and> snd p \<noteq> VNull \<longrightarrow>
        fst p \<in> set (map fst (sample_doc_cls self1))"
      unfolding extends_def by blast
  qed
  have rest: "\<forall>s \<in> set ss. media_type (doc self1) = Some (s_media_type s) \<and>
      (\<forall>p \<in> set (s_fields s). fst p \<noteq> ''_id'' \<and> snd p \<noteq> VNull \<longrightarrow>
        fst p \<in> set (map fst (sample_doc_cls self1)))"
    using ih by blast
  show ?case using e13 st here flds rest by simp
qed

lemma reload_saved: "saved self db \<Longrightarrow> reload_doc (self, db) = Inr (self, db)"
  by (simp add: reload_doc_def saved_def)

lemma expand_schema_Inr:
  assumes "expand_schema api (self, db) ss = Inr (self1, db1)"
  shows "extends self self1 \<and>
   (\<forall>s \<in> set ss. media_type (doc self1) = Some (s_media_type s) \<and>
      (\<forall>p \<in> set (s_fields s). fst p \<noteq> ''_id'' \<and> snd p \<noteq> VNull \<longrightarrow>
        fst p \<in> set (map fst (sample_doc_cls self1))))"
proof -
  from assms obtain e2 self2 db2 where
    l: "expand_samples api ss (False, self, db) = Inr (e2, self2, db2)" and
    r: "(if e2 then reload_doc (self2, db2) else Inr (self2, db2)) = Inr (self1, db1)"
    by (auto simp add: expand_schema_def split: sum.splits)
  note l' = expand_samples_Inr [OF l]
  have "self1 = self2"
  proof (cases e2)
    case True
    with l' have "saved self2 db2" by auto
    with r True show ?thesis by (simp add: reload_saved)
  next
    case False
    with r show ?thesis by simp
  qed
  with l' show ?thesis by simp
qed

lemma batch_samples_fields:
  "set (map s_fields (map (\<lambda>s. if s_in_db s then copy_sample s else s) ss)) = set (map s_fields ss)"
  by (induction ss) (auto simp add: copy_sample_def)

lemma set_media_type_Inr:
  "set_media_type (self, db) mt = Inr (self1, db1) \<Longrightarrow>
   sample_doc_cls self1 = sample_doc_cls self \<and> media_type (doc self1) = Some mt"
  by (auto simp add: set_media_type_def Let_def split: if_splits)

lemma add_samples_batch_Inr:
  assumes "add_samples_batch api (self, db) ss0 expand validate = Inr (ids, self1, db1)"
  shows "set (map fst (sample_doc_cls self)) \<subseteq> set (map fst (sample_doc_cls self1)) \<and>
    (media_type (doc self) \<noteq> None \<longrightarrow> media_type (doc self1) = media_type (doc self)) \<and>
    (expand \<longrightarrow> (\<forall>s \<in> set ss0. media_type (doc self1) = Some (s_media_type s) \<and>
      (\<forall>p \<in> set (s_fields s). fst p \<noteq> ''_id'' \<and> snd p \<noteq> VNull \<longrightarrow>
        fst p \<in> set (map fst (sample_doc_cls self1)))))"
proof -
  let ?ss = "map (\<lambda>s. if s_in_db s then copy_sample s else s) ss0"
  from assms obtain st1 st2 where
    a: "(if media_type (doc self) = None \<and> ?ss \<noteq> []
         then set_media_type (self, db) (s_media_type (hd ?ss)) else Inr (self, db)) = Inr st1" and
    b: "(if expand then expand_schema api st1 ?ss else Inr st1) = Inr st2" and
    c: "self1 = fst st2"
    by (auto simp add: add_samples_batch_def Let_def split: sum.splits prod.splits if_splits)
  have a': "sample_doc_cls (fst st1) = sample_doc_cls self"
    using a set_media_type_Inr [of self db _ "fst st1" "snd st1"] by (auto split: if_splits)
  have a'': "media_type (doc self) \<noteq> None \<Longrightarrow> st1 = (self, db)"
    using a by (auto split: if_splits)
  have sub: "set (map fst (sample_doc_cls (fst st1))) \<subseteq> set (map fst (sample_doc_cls (fst st2))) \<and>
      media_type (doc (fst st2)) = media_type (doc (fst st1))"
  proof (cases expand)
    case True
    with b have "expand_schema api (fst st1, snd st1) ?ss = Inr (fst st2, snd st2)" by simp
    from expand_schema_Inr [OF this] show ?thesis by (simp add: extends_def)
  next
    case False
    with b show ?thesis by simp
  qed
  have ex: "\<forall>s \<in> set ss0. media_type (doc self1) = Some (s_media_type s) \<and>
      (\<forall>p \<in> set (s_fields s). fst p \<noteq> ''_id'' \<and> snd p \<noteq> VNull \<longrightarrow>
        fst p \<in> set (map fst (sample_doc_cls self1)))" if expand
  proof
    fix s assume s: "s \<in> set ss0"
    let ?s = "if s_in_db s then copy_sample s else s"
    from s have m: "?s \<in> set ?ss" by (simp del: if_split)
    from that b have "expand_schema api (fst st1, snd st1) ?ss = Inr (fst st2, snd st2)" by simp
    from expand_schema_Inr [OF this] m have
      "media_type (doc (fst st2)) = Some (s_media_type ?s) \<and>
      (\<forall>p \<in> set (s_fields ?s). fst p \<noteq> ''_id'' \<and> snd p \<noteq> VNull \<longrightarrow>
        fst p \<in> set (map fst (sample_doc_cls (fst st2))))"
      by blast
    then show "media_type (doc self1) = Some (s_media_type s) \<and>
      (\<forall>p \<in> set (s_fields s). fst p \<noteq> ''_id'' \<and> snd p \<noteq> VNull \<longrightarrow>
        fst p \<in> set (map fst (sample_doc_cls self1)))"
      by (simp add: c copy_sample_def split: if_splits)
  qed
  have mt: "media_type (doc self) \<noteq> None \<Longrightarrow> media_type (doc self1) = media_type (doc self)"
    using a'' sub c by auto
  show ?thesis using a' sub ex c mt by simp
qed






text \<open>
  C8, as the code has it. The setter of \<open>media_type\<close> refuses a dataset that is not empty
  and, on an empty one, sets any of the media types, whether or not one was set before.
  When \<open>_add_samples_batch\<close> completes with \<open>expand_schema=True\<close>, every inserted sample
  has the media type of the dataset, and a media type that was set before the call is
  still the same. Adding, with \<open>expand_schema=True\<close>, a sample whose media type is not
  the one of the dataset raises \<open>MediaTypeError\<close>.
\<close>

theorem media_type_guard:
  "(len self db \<noteq> 0 \<longrightarrow> set_media_type (self, db) mt = Inl (ValueError NonEmptyDataset)) \<and>
   (len self db = 0 \<and> mt \<in> set MEDIA_TYPES \<longrightarrow>
      (\<exists>self1 db1. set_media_type (self, db) mt = Inr (self1, db1) \<and>
         media_type (doc self1) = Some mt)) \<and>
   (add_samples_batch api (self, db) samples True validate = Inr (ids, self1, db1) \<and>
      s \<in> set samples \<longrightarrow>
        media_type (doc self1) = Some (s_media_type s) \<and>
        (media_type (doc self) \<noteq> None \<longrightarrow> media_type (doc self1) = media_type (doc self))) \<and>
   (media_type (doc self) = Some m \<and> s_media_type s \<noteq> m \<longrightarrow>
      add_sample api (self, db) s True validate =
        Inl (MediaTypeError (s_media_type s) (Some m)))"
proof (intro conjI impI)
  assume "len self db \<noteq> 0"
  then show "set_media_type (self, db) mt = Inl (ValueError NonEmptyDataset)"
    by (simp add: set_media_type_def)
next
  assume "len self db = 0 \<and> mt \<in> set MEDIA_TYPES"
  then show "\<exists>self1 db1. set_media_type (self, db) mt = Inr (self1, db1) \<and>
         media_type (doc self1) = Some mt"
    by (simp add: set_media_type_def Let_def)
next
  assume a: "add_samples_batch api (self, db) samples True validate = Inr (ids, self1, db1) \<and>
      s \<in> set samples"
  then have "add_samples_batch api (self, db) samples True validate = Inr (ids, self1, db1)"
    by simp
  from add_samples_batch_Inr [OF this] a
  show "media_type (doc self1) = Some (s_media_type s)" by blast
next
  assume a: "add_samples_batch api (self, db) samples True validate = Inr (ids, self1, db1) \<and>
      s \<in> set samples"
    and "media_type (doc self) \<noteq> None"
  from a have "add_samples_batch api (self, db) samples True validate = Inr (ids, self1, db1)"
    by simp
  from add_samples_batch_Inr [OF this] \<open>media_type (doc self) \<noteq> None\<close>
  show "media_type (doc self1) = media_type (doc self)" by blast
next
  assume "media_type (doc self) = Some m \<and> s_media_type s \<noteq> m"
  then show "add_sample api (self, db) s True validate =
        Inl (MediaTypeError (s_media_type s) (Some m))"
    by (auto simp add: add_sample_def add_samples_batch_def expand_schema_def
        validate_media_type_def copy_sample_def)
qed

text \<open>
  Witness for C8: the media type of the example dataset, which has a sample, cannot be
  set; a video sample is refused by the image dataset.
\<close>

theorem media_type_guard_witness:
  "set_media_type (example_dataset, example_db) IMAGE = Inl (ValueError NonEmptyDataset) \<and>
   add_sample example_api (image_dataset, image_db) video_sample True True =
     Inl (MediaTypeError ''video'' (Some ''image''))"
proof -
  have l: "len example_dataset example_db \<noteq> 0"
    by (simp add: len_def example_dataset_def example_db_def example_doc_def get_collection_def)
  have m: "media_type (doc image_dataset) = Some ''image'' \<and> s_media_type video_sample \<noteq> ''image''"
    by (simp add: image_dataset_def image_doc_def video_sample_def)
  from media_type_guard [where self = example_dataset and db = example_db and mt = IMAGE] l
  have a: "set_media_type (example_dataset, example_db) IMAGE = Inl (ValueError NonEmptyDataset)"
    by blast
  from media_type_guard [where self = image_dataset and db = image_db and s = video_sample
      and m = "''image''" and api = example_api and validate = True] m
  have b: "add_sample example_api (image_dataset, image_db) video_sample True True =
     Inl (MediaTypeError (s_media_type video_sample) (Some ''image''))"
    by blast
  show ?thesis using a b by (simp add: video_sample_def)
qed

text \<open>
  Counterexample to C8 as stated: the image dataset has the media type \<open>image\<close> and no
  sample; setting its media type to \<open>video\<close> succeeds, so the media type is set a second
  time and changes.
\<close>

theorem media_type_guard_counterexample:
  "media_type (doc image_dataset) = Some IMAGE \<and>
   set_media_type (image_dataset, image_db) VIDEO =
     Inr (image_dataset\<lparr>doc := image_doc\<lparr>media_type := Some VIDEO,
              frame_fields := [(''frame_number'', OtherField ''FrameNumberField'')]\<rparr>\<rparr>,
          image_db\<lparr>dataset_docs := [image_doc\<lparr>media_type := Some VIDEO,
              frame_fields := [(''frame_number'', OtherField ''FrameNumberField'')]\<rparr>]\<rparr>)"
  by (simp add: set_media_type_def len_def get_collection_def image_dataset_def image_db_def
      image_doc_def MEDIA_TYPES_def VIDEO_def IMAGE_def save_doc_def Let_def)

section \<open>Cloning\<close>

lemma and_then_Inr:
  assumes "and_then m f db = (Inr y, db2)"
  obtains x db1 where "m db = (Inr x, db1)" and "f x db1 = (Inr y, db2)"
  using assms by (auto simp add: and_then_def split: prod.splits sum.splits)

lemma coll_create_index_docs:
  "coll_create_index c ix db = (r, db1) \<Longrightarrow>
   dataset_docs db1 = dataset_docs db \<and> gridfs db1 = gridfs db"
  by (auto simp add: coll_create_index_def set_indexes_def split: option.splits if_splits)

lemma create_indexes_docs:
  assumes "create_indexes a b db = (Inr x, db1)"
  shows "dataset_docs db1 = dataset_docs db"
proof -
  from assms obtain y db2 where
    "coll_create_index a ([''filepath''], False) db = (Inr y, db2)"
    "coll_create_index b ([''_sample_id'', ''frame_number''], True) db2 = (Inr x, db1)"
    unfolding create_indexes_def by (rule and_then_Inr)
  then show ?thesis using coll_create_index_docs by metis
qed

lemma out_collection_docs:
  "out_collection c docs db = (r, db1) \<Longrightarrow> dataset_docs db1 = dataset_docs db"
  by (auto simp add: out_collection_def set_collection_def split: if_splits)

lemma find_save_doc_other:
  "name d \<noteq> n \<Longrightarrow>
   List.find (\<lambda>d'. name d' = n) (dataset_docs (save_doc d db)) =
   List.find (\<lambda>d'. name d' = n) (dataset_docs db)"
proof -
  assume a: "name d \<noteq> n"
  have m: "List.find (\<lambda>d'. name d' = n) (map (\<lambda>d'. if name d' = name d then d else d') ds) =
      List.find (\<lambda>d'. name d' = n) ds" for ds
    using a by (induction ds) auto
  have e: "List.find (\<lambda>d'. name d' = n) (ds @ [d]) = List.find (\<lambda>d'. name d' = n) ds" for ds
    using a by (induction ds) auto
  show ?thesis using m e by (simp add: save_doc_def)
qed

lemma copy_runs_docs:
  "copy_runs rs db = (rs1, db1) \<Longrightarrow> dataset_docs db1 = dataset_docs db"
  by (induction rs db arbitrary: rs1 db1 rule: copy_runs.induct)
     (auto simp add: Let_def split: prod.splits)

lemma clone_runs_Inr:
  assumes "clone_runs cl src_doc db = (Inr cl1, db1)"
  shows "persistent (doc cl1) = persistent (doc cl) \<and> name (doc cl1) = name (doc cl) \<and>
         saved cl1 db1 \<and>
         (\<forall>n. n \<noteq> name (doc cl) \<longrightarrow>
            List.find (\<lambda>d'. name d' = n) (dataset_docs db1) =
            List.find (\<lambda>d'. name d' = n) (dataset_docs db))"
proof -
  from assms obtain ev db2 br db3 where
    a: "copy_runs (evaluations src_doc) db = (ev, db2)" and
    b: "copy_runs (brain_methods src_doc) db2 = (br, db3)" and
    c: "cl1 = cl\<lparr>doc := (doc cl)\<lparr>evaluations := ev, brain_methods := br\<rparr>\<rparr>" and
    d: "db1 = save_doc ((doc cl)\<lparr>evaluations := ev, brain_methods := br\<rparr>) db3"
    by (auto simp add: clone_runs_def Let_def split: prod.splits)
  have docs: "dataset_docs db3 = dataset_docs db"
    using copy_runs_docs [OF a] copy_runs_docs [OF b] by simp
  have s: "saved cl1 db1"
    unfolding saved_def c d by (simp add: find_save_doc')
  have o: "List.find (\<lambda>d'. name d' = n) (dataset_docs db1) =
      List.find (\<lambda>d'. name d' = n) (dataset_docs db)" if "n \<noteq> name (doc cl)" for n
  proof -
    from that have "name ((doc cl)\<lparr>evaluations := ev, brain_methods := br\<rparr>) \<noteq> n"
      by simp
    from find_save_doc_other [OF this, of db3] show ?thesis
      unfolding d docs .
  qed
  show ?thesis using s o by (simp add: c)
qed

lemma load_dataset_Inr:
  "load_dataset dflt mbrs n db = (Inr cl, db1) \<Longrightarrow>
   db1 = db \<and> List.find (\<lambda>d. name d = n) (dataset_docs db) = Some (doc cl)"
  by (auto simp add: load_dataset_def split: option.splits)

lemma find_name: "List.find (\<lambda>d. name d = n) ds = Some d \<Longrightarrow> name d = n \<and> n \<in> set (map name ds)"
  by (induction ds) (auto split: if_splits)

lemma clone_samples_docs:
  "clone_samples step ds v c db = (r, db1) \<Longrightarrow> dataset_docs db1 = dataset_docs db"
  unfolding clone_samples_def by (rule out_collection_docs)

lemma clone_frames_docs:
  "clone_frames step ds v c db = (r, db1) \<Longrightarrow> dataset_docs db1 = dataset_docs db"
  unfolding clone_frames_def
  by (auto simp add: return_def dest: out_collection_docs split: if_splits option.splits)

text \<open>
  C10. Let the document that the dataset holds in memory be the stored one. Whenever
  \<open>Dataset.clone\<close> returns a clone, the \<open>persistent\<close> flag of the clone is \<open>False\<close>, in
  memory and as stored; the source instance is what it was, so its flag is unchanged,
  and its stored document is unchanged too.
\<close>

theorem clone_not_persistent:
  assumes sv: "saved self db"
    and cl: "clone step dflt now default_name self n db = (Inr (cl, self1), db1)"
  shows "persistent (doc cl) = False \<and> saved cl db1 \<and>
         self1 = self \<and> persistent (doc self1) = persistent (doc self) \<and> saved self db1"
proof -
  define m where "m = (case n of None \<Rightarrow> default_name | Some n1 \<Rightarrow> n1)"
  from cl have c: "clone_dataset_or_view step dflt now self None m db = (Inr (cl, self1), db1)"
    by (auto simp add: clone_def m_def split: sum.splits)
  have rl: "reload_doc (self, db) = Inr (self, db)"
    using sv by (simp add: reload_doc_def saved_def)
  from sv have nm: "name (doc self) \<in> set (map name (dataset_docs db))"
    unfolding saved_def using find_name by fastforce
  from c have ne: "\<not> dataset_exists m db"
    by (auto simp add: clone_dataset_or_view_def split: if_splits)
  with nm have neq: "m \<noteq> name (doc self)"
    by (auto simp add: dataset_exists_def)
  define scn where "scn = make_sample_collection_name now False False db"
  define d1 where "d1 = clone_dataset_doc self None m scn"
  from c ne rl have chain:
    "and_then (create_indexes scn (''frames.'' @ scn)) (\<lambda>_.
       and_then (clone_samples step self None scn) (\<lambda>_.
       and_then (clone_frames step self None (''frames.'' @ scn)) (\<lambda>_.
         and_then (load_dataset dflt (members self) m) (\<lambda>c0.
           and_then (clone_run_results self c0) (\<lambda>c1. return (c1, self))))))
       (save_doc d1 db) = (Inr (cl, self1), db1)"
    by (simp add: clone_dataset_or_view_def Let_def scn_def d1_def)
  from chain obtain u1 dba where
    s1: "create_indexes scn (''frames.'' @ scn) (save_doc d1 db) = (Inr u1, dba)" and
    r1: "and_then (clone_samples step self None scn) (\<lambda>_.
       and_then (clone_frames step self None (''frames.'' @ scn)) (\<lambda>_.
         and_then (load_dataset dflt (members self) m) (\<lambda>c0.
           and_then (clone_run_results self c0) (\<lambda>c1. return (c1, self))))) dba
         = (Inr (cl, self1), db1)"
    by (rule and_then_Inr)
  from r1 obtain u2 dbb where
    s2: "clone_samples step self None scn dba = (Inr u2, dbb)" and
    r2: "and_then (clone_frames step self None (''frames.'' @ scn)) (\<lambda>_.
         and_then (load_dataset dflt (members self) m) (\<lambda>c0.
           and_then (clone_run_results self c0) (\<lambda>c1. return (c1, self)))) dbb
         = (Inr (cl, self1), db1)"
    by (rule and_then_Inr)
  from r2 obtain u3 dbc where
    s3: "clone_frames step self None (''frames.'' @ scn) dbb = (Inr u3, dbc)" and
    r3: "and_then (load_dataset dflt (members self) m) (\<lambda>c0.
           and_then (clone_run_results self c0) (\<lambda>c1. return (c1, self))) dbc
         = (Inr (cl, self1), db1)"
    by (rule and_then_Inr)
  from r3 obtain c0 dbd where
    s4: "load_dataset dflt (members self) m dbc = (Inr c0, dbd)" and
    r4: "and_then (clone_run_results self c0) (\<lambda>c1. return (c1, self)) dbd
         = (Inr (cl, self1), db1)"
    by (rule and_then_Inr)
  from r4 obtain c1 dbe where
    s5: "clone_run_results self c0 dbd = (Inr c1, dbe)" and
    r5: "return (c1, self) dbe = (Inr (cl, self1), db1)"
    by (rule and_then_Inr)
  from r5 have fin: "cl = c1" "self1 = self" "db1 = dbe"
    by (simp_all add: return_def)
  have docs: "dataset_docs dbc = dataset_docs (save_doc d1 db)"
    using create_indexes_docs [OF s1] clone_samples_docs [OF s2] clone_frames_docs [OF s3]
    by simp
  have d1n: "name d1 = m" and d1p: "persistent d1 = False"
    by (simp_all add: d1_def clone_dataset_doc_def)
  from load_dataset_Inr [OF s4] have dd: "dbd = dbc"
    and c0d: "List.find (\<lambda>d. name d = m) (dataset_docs dbc) = Some (doc c0)"
    by simp_all
  from c0d have c0: "doc c0 = d1"
    unfolding docs using find_save_doc' [OF d1n, of db] by simp
  have self_c: "List.find (\<lambda>d. name d = name (doc self)) (dataset_docs dbc) = Some (doc self)"
  proof -
    have "name d1 \<noteq> name (doc self)" using neq d1n by simp
    from find_save_doc_other [OF this, of db] sv show ?thesis
      unfolding docs saved_def by simp
  qed
  have c0_saved: "saved c0 dbc"
    unfolding saved_def using c0d c0 d1n by simp
  have res: "persistent (doc c1) = False \<and> saved c1 dbe \<and> saved self dbe"
  proof (cases "evaluations (doc self) \<noteq> [] \<or> brain_methods (doc self) \<noteq> []")
    case True
    with s5 have "clone_runs c0 (doc self) dbd = (Inr c1, dbe)"
      by (simp add: clone_run_results_def)
    from clone_runs_Inr [OF this] neq c0 d1n d1p self_c dd
    show ?thesis by (auto simp add: saved_def)
  next
    case False
    with s5 have "c1 = c0" "dbe = dbd"
      by (simp_all add: clone_run_results_def return_def)
    with c0 c0_saved self_c dd d1p show ?thesis
      by (simp add: saved_def)
  qed
  show ?thesis using res fin by simp
qed

lemma clone_in_attributes: "''_clone'' \<in> set Dataset_attributes"
  by (simp add: Dataset_attributes_def)

lemma clone_example:
  "clone (\<lambda>st docs. docs) example_defaults (''2021'', ''2021.5'') ''2021'' persistent_dataset
     (Some ''copy'') persistent_db = (Inr (copy_dataset, persistent_dataset), persistent_db_cloned)"
  using clone_in_attributes
  by (simp add: clone_def getattribute_def always_available_def startswith_def
      super_getattribute_def clone_dataset_or_view_def dataset_exists_def reload_doc_def
      make_sample_collection_name_def create_indexes_def coll_create_index_def
      user_indexes_def set_indexes_def clone_samples_def clone_frames_def out_collection_def
      unique_ok_def get_indexes_def key_of_def set_collection_def get_collection_def
      aggregate_def Dataset_pipeline_def load_dataset_def clone_run_results_def
      clone_dataset_doc_def save_doc_def frame_collection_name_def and_then_def return_def
      persistent_dataset_def persistent_db_def copy_dataset_def persistent_db_cloned_def
      example_dataset_def example_doc_def example_db_def example_defaults_def VIDEO_def
      Let_def)

text \<open>
  Witness for C10: the example dataset, made persistent and stored, is cloned under the
  name \<open>copy\<close>; the clone is not persistent and the source still is.
\<close>

theorem clone_not_persistent_witness:
  "saved persistent_dataset persistent_db \<and>
   persistent (doc persistent_dataset) \<and>
   clone (\<lambda>st docs. docs) example_defaults (''2021'', ''2021.5'') ''2021'' persistent_dataset
     (Some ''copy'') persistent_db = (Inr (copy_dataset, persistent_dataset), persistent_db_cloned) \<and>
   persistent (doc copy_dataset) = False \<and>
   saved copy_dataset persistent_db_cloned \<and>
   saved persistent_dataset persistent_db_cloned"
proof -
  have s: "saved persistent_dataset persistent_db"
    by (simp add: saved_def persistent_dataset_def persistent_db_def example_dataset_def
        example_db_def example_doc_def)
  have p: "persistent (doc persistent_dataset)"
    by (simp add: persistent_dataset_def)
  from clone_not_persistent [OF s clone_example] s p clone_example
  show ?thesis by simp
qed

section \<open>Merging label lists\<close>














section \<open>Merging datasets\<close>

text \<open>
  C6, on a dataset with one sample. \<open>_merge_samples_pipeline\<close> is run from the dataset
  into itself with \<open>key_field="id"\<close>, \<open>skip_existing=False\<close>, \<open>overwrite=True\<close> and the
  defaults \<open>insert_new=True\<close>, \<open>merge_lists=True\<close>. The key is translated to \<open>_id\<close>,
  the field \<open>id\<close> stays among the omitted fields and its database field \<open>_id\<close> is
  unset on every incoming document; the incoming document gets a fresh \<open>_id\<close>, matches
  nothing and is inserted. The dataset has two samples afterwards, not one.
\<close>

theorem merge_into_itself_by_id:
  "merge_samples_pipeline example_env photos photos ''id'' False True True True photos_db =
     (Inr (), photos_db_merged) \<and>
   length (get_collection photos_db (sample_collection_name (doc photos))) = 1 \<and>
   length (get_collection photos_db_merged (sample_collection_name (doc photos))) = 2"
  by code_simp

text \<open>
  C2, on two video datasets with one sample and one frame each, merged by \<open>filepath\<close>
  with \<open>insert_new=False\<close>. Before the merge every frame of either dataset belongs to a
  sample of its dataset. The sample of the source matches nothing and is discarded, but
  its frame is inserted into the frames of the destination, since the frames are merged
  with \<open>whenNotMatched: insert\<close> whatever \<open>insert_new\<close> is. \<open>_finalize_frames\<close> then
  raises \<open>KeyError\<close> for the key of that frame. The destination is left with a frame
  that has no \<open>_sample_id\<close> and belongs to no sample, and with the temporary field
  \<open>_merge_key\<close> on its frames.
\<close>

theorem merge_without_insert_leaves_frame:
  "frames_consistent (films ''dst'' ''samples.10'') films_db \<and>
   frames_consistent (films ''src'' ''samples.20'') films_db \<and>
   merge_samples_pipeline example_env (films ''src'' ''samples.20'') (films ''dst'' ''samples.10'')
     ''filepath'' False False True True films_db =
     (Inl (KeyError (MissingKey (VStr ''b.mp4''))), films_db_failed) \<and>
   \<not> frames_consistent (films ''dst'' ''samples.10'') films_db_failed"
  by code_simp

text \<open>
  With the key \<open>filepath\<close> the same merge leaves the database as it was: there the key
  is removed from the omitted fields as intended.
\<close>

lemma merge_into_itself_by_filepath:
  "merge_samples_pipeline example_env photos photos ''filepath'' False True True True photos_db =
     (Inr (), photos_db)"
  by code_simp

text \<open>
  With \<open>insert_new=True\<close> the same merge completes and the frames of the destination
  are consistent: the sample of the source is inserted and its frame refers to it.
\<close>

lemma merge_with_insert_keeps_frames:
  "merge_samples_pipeline example_env (films ''src'' ''samples.20'') (films ''dst'' ''samples.10'')
     ''filepath'' False True True True films_db = (Inr (), films_db_merged) \<and>
   frames_consistent (films ''dst'' ''samples.10'') films_db_merged"
  by code_simp

end
